theory Spec2Isabelle
  imports Main "HOL-Library.AList" "HOL-Library.FSet" "HOL-Library.Char_ord"
    "HOL-Library.List_Lexorder"
begin

section \<open>Python values and exceptions\<close>

text \<open>
  The values that reach a column's converter are JSON scalars decoded by Python:
  \<open>None\<close>, booleans, integers, floats and strings. A date object is added for the
  \<open>start\<close> and \<open>end\<close> attributes of a column. Floats are carried as rationals; no
  floating-point arithmetic is performed on them here.
\<close>

datatype pyval =
    PNone
  | PBool bool
  | PInt int
  | PFloat rat
  | PStr string
  | PDate nat nat nat

text \<open>The exceptions raised by the modelled code, each with its message or key.\<close>

datatype pyerror =
    AssertionError string
  | AttributeError string
  | KeyError string
  | RuntimeError string
  | TypeError string
  | ValueError string

text \<open>The classes named in the \<open>isinstance\<close> tests of \<open>columns.py\<close>.\<close>

datatype pyclass = Cls_int | Cls_bool | Cls_float | Cls_basestring | Cls_date

fun instance_of :: "pyval \<Rightarrow> pyclass \<Rightarrow> bool" where
  "instance_of (PBool _) Cls_bool = True"
| "instance_of (PBool _) Cls_int = True" \<comment> \<open>\<open>bool\<close> is a subclass of \<open>int\<close>\<close>
| "instance_of (PInt _) Cls_int = True"
| "instance_of (PFloat _) Cls_float = True"
| "instance_of (PStr _) Cls_basestring = True"
| "instance_of (PDate _ _ _) Cls_date = True"
| "instance_of _ _ = False"

definition isinstance :: "pyval \<Rightarrow> pyclass list \<Rightarrow> bool" where
  "isinstance v classes = list_ex (instance_of v) classes"

text \<open>
  Numeric reading of a value, as Python's comparison of numbers uses it: \<open>True\<close> is 1
  and \<open>False\<close> is 0.
\<close>

fun as_number :: "pyval \<Rightarrow> rat option" where
  "as_number (PBool b) = Some (if b then 1 else 0)"
| "as_number (PInt i) = Some (of_int i)"
| "as_number (PFloat q) = Some q"
| "as_number _ = None"

text \<open>Python's \<open>==\<close>: numbers compare by value across \<open>bool\<close>, \<open>int\<close> and \<open>float\<close>.\<close>

definition py_eq :: "pyval \<Rightarrow> pyval \<Rightarrow> bool" where
  "py_eq a b =
     (case (as_number a, as_number b) of
        (Some x, Some y) \<Rightarrow> x = y
      | (None, None) \<Rightarrow> a = b
      | _ \<Rightarrow> False)"

text \<open>
  \<open>value >= constant\<close> for an integer constant. Python 2 orders every non-numeric
  object other than \<open>None\<close> above every number, and \<open>None\<close> below.
\<close>

definition py_ge :: "pyval \<Rightarrow> int \<Rightarrow> bool" where
  "py_ge v c =
     (case as_number v of
        Some x \<Rightarrow> of_int c \<le> x
      | None \<Rightarrow> v \<noteq> PNone)"

text \<open>\<open>value in d\<close> for a dict \<open>d\<close> with integer keys: a key equal to the value exists.\<close>

definition py_in_keys :: "pyval \<Rightarrow> int list \<Rightarrow> bool" where
  "py_in_keys v ks = list_ex (\<lambda>k. py_eq v (PInt k)) ks"

section \<open>The converters of the \<open>conv\<close> module\<close>

text \<open>
  \<open>columns.py\<close> builds its validation pipelines from the converters of \<open>conv\<close>, which
  re-exports the third-party library \<open>biryani1.baseconv\<close>; neither is among the
  sources, so the combinators are written here after the library's documented
  behaviour. A converter takes a value and returns a pair \<open>(value, error)\<close>, where
  the error is \<open>None\<close> on success. The optional \<open>state\<close> argument only selects the
  language of the error messages and is left out.
\<close>

type_synonym converter = "pyval \<Rightarrow> pyval \<times> string option"

text \<open>
  \<open>pipe\<close> applies its converters in turn and stops at the first one that reports an
  error, returning that error.
\<close>

fun pipe :: "converter list \<Rightarrow> converter" where
  "pipe [] v = (v, None)"
| "pipe (c # cs) v =
     (case c v of
        (v', Some e) \<Rightarrow> (v', Some e)
      | (v', None) \<Rightarrow> pipe cs v')"

text \<open>
  \<open>test(function, error)\<close>: \<open>None\<close> passes untested; any other value is returned
  unchanged, with the error when the predicate fails.
\<close>

definition test :: "(pyval \<Rightarrow> bool) \<Rightarrow> string \<Rightarrow> converter" where
  "test f err v =
     (if v = PNone then (v, None)
      else if f v then (v, None)
      else (v, Some err))"

definition test_isinstance :: "pyclass list \<Rightarrow> converter" where
  "test_isinstance classes =
     test (\<lambda>v. isinstance v classes) ''Value is not an instance of the expected class''"

definition test_greater_or_equal :: "int \<Rightarrow> converter" where
  "test_greater_or_equal c =
     test (\<lambda>v. py_ge v c) ''Value must be greater than or equal to the constant''"

definition test_equals :: "int \<Rightarrow> converter" where
  "test_equals c = test (\<lambda>v. py_eq v (PInt c)) ''Value must be equal to the constant''"

definition test_in_keys :: "int list \<Rightarrow> converter" where
  "test_in_keys ks = test (\<lambda>v. py_in_keys v ks) ''Value must belong to the given values''"

text \<open>
  \<open>first_match\<close> tries each converter on the same input until one succeeds; when all
  fail it returns the result of the last one.
\<close>

fun first_match :: "converter list \<Rightarrow> converter" where
  "first_match [] v = (v, None)"
| "first_match [c] v = c v"
| "first_match (c # cs) v =
     (case c v of
        (v', None) \<Rightarrow> (v', None)
      | (_, Some _) \<Rightarrow> first_match cs v)"

text \<open>
  \<open>condition(test_converter, ok_converter, error_converter)\<close> applies \<open>ok_converter\<close>
  to the input when \<open>test_converter\<close> succeeds on it, \<open>error_converter\<close> otherwise.
\<close>

definition condition :: "converter \<Rightarrow> converter \<Rightarrow> converter \<Rightarrow> converter" where
  "condition test_converter ok_converter error_converter v =
     (case test_converter v of
        (_, None) \<Rightarrow> ok_converter v
      | (_, Some _) \<Rightarrow> error_converter v)"

text \<open>\<open>default(constant)\<close> replaces \<open>None\<close> by the constant and keeps any other value.\<close>

definition default :: "pyval \<Rightarrow> converter" where
  "default constant v = (if v = PNone then (constant, None) else (v, None))"

text \<open>\<open>function(f)\<close> applies \<open>f\<close> to any value but \<open>None\<close> and never fails.\<close>

definition function_conv :: "(pyval \<Rightarrow> pyval) \<Rightarrow> converter" where
  "function_conv f v = (if v = PNone then (v, None) else (f v, None))"

text \<open>
  \<open>anything_to_int\<close> is \<open>int(value)\<close>, with \<open>ValueError\<close> turned into an error and
  \<open>None\<close> passed through. The parser of the builtin \<open>int\<close> on strings is a parameter
  \<open>int_of_str\<close>, which returns \<open>None\<close> where \<open>int\<close> raises \<open>ValueError\<close>. A float
  is truncated towards zero. A date is no argument for \<open>int\<close>; every pipeline below
  tests the class of its input first, so no date reaches this converter.
\<close>

definition anything_to_int :: "(string \<Rightarrow> int option) \<Rightarrow> converter" where
  "anything_to_int int_of_str v =
     (case v of
        PNone \<Rightarrow> (v, None)
      | PBool b \<Rightarrow> (PInt (if b then 1 else 0), None)
      | PInt i \<Rightarrow> (PInt i, None)
      | PFloat q \<Rightarrow> (PInt (if 0 \<le> q then \<lfloor>q\<rfloor> else \<lceil>q\<rceil>), None)
      | PStr s \<Rightarrow>
          (case int_of_str s of
             Some i \<Rightarrow> (PInt i, None)
           | None \<Rightarrow> (v, Some ''Value must be an integer''))
      | PDate _ _ _ \<Rightarrow> (v, Some ''Value must be an integer''))"

text \<open>
  \<open>input_to_slug\<close> normalises a string with \<open>strings.slugify\<close> (a parameter: lower
  case, diacritics removed, runs of other characters replaced by one hyphen) and
  returns \<open>None\<close> when nothing is left.
\<close>

definition input_to_slug :: "(string \<Rightarrow> string) \<Rightarrow> converter" where
  "input_to_slug slugify v =
     (case v of
        PStr s \<Rightarrow> (if slugify s = [] then (PNone, None) else (PStr (slugify s), None))
      | _ \<Rightarrow> (v, None))"

section \<open>Columns (\<open>columns.py\<close>)\<close>

text \<open>
  Modelled from the spec: the \<open>Enum\<close> class of the \<open>enumerations\<close> module is not among
  the sources. The spec describes an enumeration as an ordered mapping from integer
  code to label; \<open>columns.py\<close> reads it through the dict \<open>enum._vars\<close> (code to label)
  and by iterating the enumeration, which yields \<open>(label, code)\<close> pairs. It is an
  association list in the dict's iteration order; as dict keys, its codes are distinct.
\<close>

type_synonym enum_vars = "(int \<times> string) list"

datatype col_class = Column | BoolCol | DateCol | FloatCol | IntCol | AgesCol | EnumCol

text \<open>
  The attributes of a column object. An attribute the instance does not set is read
  from its class, so the record holds the value that attribute access returns.
  \<open>freq\<close> is \<open>None\<close> when the object has no such attribute: no class of
  \<open>columns.py\<close> defines \<open>freq\<close> and \<open>__init__\<close> does not assign it. The numpy
  \<open>_dtype\<close> is left out: nothing below reads it.
\<close>

record column =
  cls :: col_class
  col_default :: pyval
  cerfa_field :: pyval
  col_end :: pyval
  col_entity :: pyval
  col_info :: pyval
  col_label :: pyval
  legislative_input :: bool
  col_name :: pyval
  col_start :: pyval
  survey_only :: bool
  val_type :: pyval
  freq :: "pyval option"
  col_enum :: "enum_vars option"
  index_by_slug :: "(string \<times> int) list option"

text \<open>\<open>json_type\<close> is defined in the sub-classes only.\<close>

fun json_type :: "col_class \<Rightarrow> string option" where
  "json_type Column = None"
| "json_type BoolCol = Some ''Boolean''"
| "json_type DateCol = Some ''Date''"
| "json_type FloatCol = Some ''Float''"
| "json_type IntCol = Some ''Integer''"
| "json_type AgesCol = Some ''Integer''"
| "json_type EnumCol = Some ''Enumeration''"

text \<open>The class attributes, with inheritance resolved.\<close>

definition class_attributes :: "col_class \<Rightarrow> column" where
  "class_attributes c =
     \<lparr> cls = c,
       col_default = (case c of BoolCol \<Rightarrow> PBool False | AgesCol \<Rightarrow> PInt (- 9999) | _ \<Rightarrow> PInt 0),
       cerfa_field = PNone,
       col_end = PNone,
       col_entity = PNone,
       col_info = PNone,
       col_label = PNone,
       legislative_input = False,
       col_name = PNone,
       col_start = PNone,
       survey_only = False,
       val_type = (case c of DateCol \<Rightarrow> PStr ''date'' | _ \<Rightarrow> PNone),
       freq = None,
       col_enum = None,
       index_by_slug = None \<rparr>"

text \<open>Python's truth value of an object.\<close>

fun truthy :: "pyval \<Rightarrow> bool" where
  "truthy PNone = False"
| "truthy (PBool b) = b"
| "truthy (PInt i) = (i \<noteq> 0)"
| "truthy (PFloat q) = (q \<noteq> 0)"
| "truthy (PStr s) = (s \<noteq> [])"
| "truthy (PDate _ _ _) = True"

text \<open>The keyword arguments of \<open>Column.__init__\<close>, and their defaults.\<close>

record init_kwargs =
  kw_label :: pyval
  kw_cerfa_field :: pyval
  kw_default :: pyval
  kw_end :: pyval
  kw_entity :: pyval
  kw_info :: pyval
  kw_legislative_input :: pyval
  kw_start :: pyval
  kw_survey_only :: pyval
  kw_val_type :: pyval

definition no_kwargs :: init_kwargs where
  "no_kwargs =
     \<lparr> kw_label = PNone, kw_cerfa_field = PNone, kw_default = PNone, kw_end = PNone,
       kw_entity = PNone, kw_info = PNone, kw_legislative_input = PBool True,
       kw_start = PNone, kw_survey_only = PBool False, kw_val_type = PNone \<rparr>"

definition Column_init :: "col_class \<Rightarrow> init_kwargs \<Rightarrow> column" where
  "Column_init c kw =
     (let self = class_attributes c;
          self = (if kw_cerfa_field kw \<noteq> PNone then self\<lparr>cerfa_field := kw_cerfa_field kw\<rparr> else self);
          self = (if kw_default kw \<noteq> PNone \<and> \<not> py_eq (kw_default kw) (col_default self)
                  then self\<lparr>col_default := kw_default kw\<rparr> else self);
          self = (if kw_end kw \<noteq> PNone then self\<lparr>col_end := kw_end kw\<rparr> else self);
          self = self\<lparr>col_entity := (if truthy (kw_entity kw) then kw_entity kw else PStr ''ind'')\<rparr>;
          self = (if kw_info kw \<noteq> PNone then self\<lparr>col_info := kw_info kw\<rparr> else self);
          self = (if kw_label kw \<noteq> PNone then self\<lparr>col_label := kw_label kw\<rparr> else self);
          self = (if truthy (kw_legislative_input kw) then self\<lparr>legislative_input := True\<rparr> else self);
          self = (if kw_start kw \<noteq> PNone then self\<lparr>col_start := kw_start kw\<rparr> else self);
          self = (if truthy (kw_survey_only kw) then self\<lparr>survey_only := True\<rparr> else self);
          self = (if kw_val_type kw \<noteq> PNone \<and> \<not> py_eq (kw_val_type kw) (val_type self)
                  then self\<lparr>val_type := kw_val_type kw\<rparr> else self);
          self = (if kw_cerfa_field kw \<noteq> PNone then self\<lparr>cerfa_field := kw_cerfa_field kw\<rparr> else self);
          self = (if kw_info kw \<noteq> PNone then self\<lparr>col_info := kw_info kw\<rparr> else self)
      in self)"

text \<open>\<open>EnumCol.__init__\<close>: the enumeration is kept when one is given.\<close>

definition EnumCol_init :: "enum_vars option \<Rightarrow> init_kwargs \<Rightarrow> column" where
  "EnumCol_init enum kw =
     (let self = Column_init EnumCol kw
      in case enum of None \<Rightarrow> self | Some e \<Rightarrow> self\<lparr>col_enum := Some e\<rparr>)"

subsection \<open>Serialization\<close>

text \<open>
  The \<open>OrderedDict\<close> returned by \<open>to_json\<close> is an association list in insertion order;
  an entry is a scalar or, under \<open>labels\<close>, the ordered code-to-label table.
\<close>

datatype jsonv = Scalar pyval | Labels "(int \<times> string) list"

definition digit :: "nat \<Rightarrow> char" where
  "digit n = char_of (48 + n mod 10)"

text \<open>\<open>date.isoformat()\<close>: \<open>YYYY-MM-DD\<close>.\<close>

definition isoformat :: "nat \<Rightarrow> nat \<Rightarrow> nat \<Rightarrow> string" where
  "isoformat y m d =
     [digit (y div 1000), digit (y div 100), digit (y div 10), digit y] @ ''-'' @
     [digit (m div 10), digit m] @ ''-'' @ [digit (d div 10), digit d]"

definition date_to_json :: "pyval \<Rightarrow> pyval" where
  "date_to_json v = (case v of PDate y m d \<Rightarrow> PStr (isoformat y m d) | _ \<Rightarrow> v)"

text \<open>\<open>if cond: d[key] = value\<close>, on an ordered dict.\<close>

definition set_item_if :: "bool \<Rightarrow> 'k \<Rightarrow> 'v \<Rightarrow> ('k \<times> 'v) list \<Rightarrow> ('k \<times> 'v) list" where
  "set_item_if cond key v d = (if cond then AList.update key v d else d)"

text \<open>
  \<open>Column.to_json\<close>. Reading \<open>self.json_type\<close> or \<open>self.freq\<close> on an object without
  that attribute raises \<open>AttributeError\<close>. The column is only read, so the function
  returns no new state.
\<close>

definition Column_to_json :: "column \<Rightarrow> pyerror + (string \<times> jsonv) list" where
  "Column_to_json self =
     (case json_type (cls self) of
        None \<Rightarrow> Inl (AttributeError ''json_type'')
      | Some t \<Rightarrow>
          (let self_json = [(''@type'', Scalar (PStr t))];
               self_json = set_item_if (cerfa_field self \<noteq> PNone)
                             ''cerfa_field'' (Scalar (cerfa_field self)) self_json;
               self_json = set_item_if (col_default self \<noteq> PNone)
                             ''default'' (Scalar (col_default self)) self_json;
               self_json = set_item_if (col_end self \<noteq> PNone)
                             ''end'' (Scalar (date_to_json (col_end self))) self_json;
               self_json = set_item_if (col_entity self \<noteq> PNone)
                             ''entity'' (Scalar (col_entity self)) self_json
           in case freq self of
                None \<Rightarrow> Inl (AttributeError ''freq'')
              | Some f \<Rightarrow>
                  (let self_json = set_item_if (\<not> py_eq f (PStr ''year''))
                                     ''freq'' (Scalar f) self_json;
                       self_json = set_item_if (col_label self \<noteq> PNone)
                                     ''label'' (Scalar (col_label self)) self_json;
                       self_json = set_item_if (col_name self \<noteq> PNone)
                                     ''name'' (Scalar (col_name self)) self_json;
                       self_json = set_item_if (col_start self \<noteq> PNone)
                                     ''start'' (Scalar (date_to_json (col_start self))) self_json;
                       self_json = set_item_if (val_type self \<noteq> PNone)
                                     ''val_type'' (Scalar (val_type self)) self_json
                   in Inr self_json)))"

text \<open>
  \<open>EnumCol.to_json\<close> adds the table of labels, built by iterating the enumeration.
\<close>

definition EnumCol_to_json :: "column \<Rightarrow> pyerror + (string \<times> jsonv) list" where
  "EnumCol_to_json self =
     (case Column_to_json self of
        Inl e \<Rightarrow> Inl e
      | Inr self_json \<Rightarrow>
          (case col_enum self of
             None \<Rightarrow> Inr self_json
           | Some enum \<Rightarrow>
               Inr (AList.update ''labels''
                      (Labels (foldl (\<lambda>d (index, label). AList.update index label d) [] enum))
                      self_json)))"

text \<open>Method dispatch on the class of the object.\<close>

definition to_json :: "column \<Rightarrow> pyerror + (string \<times> jsonv) list" where
  "to_json self = (if cls self = EnumCol then EnumCol_to_json self else Column_to_json self)"

subsection \<open>Validation pipelines\<close>

definition IntCol_json_to_python :: "column \<Rightarrow> converter" where
  "IntCol_json_to_python self = test_isinstance [Cls_int]"

definition AgesCol_json_to_python :: "column \<Rightarrow> converter" where
  "AgesCol_json_to_python self =
     pipe [IntCol_json_to_python self,
           first_match [test_greater_or_equal 0, test_equals (- 9999)]]"

text \<open>
  The index from normalized label to code: \<open>dict((slugify(name), index) for index, name
  in sorted(enum._vars.iteritems()))\<close>. The pairs are taken in increasing code; a later
  pair with the same slug replaces the earlier one.
\<close>

definition build_index_by_slug :: "(string \<Rightarrow> string) \<Rightarrow> enum_vars \<Rightarrow> (string \<times> int) list" where
  "build_index_by_slug slugify enum =
     foldl (\<lambda>d (index, name). AList.update (slugify name) index d) [] (sort_key fst enum)"

definition test_in_index :: "(string \<times> int) list \<Rightarrow> converter" where
  "test_in_index index =
     test (\<lambda>v. case v of PStr s \<Rightarrow> map_of index s \<noteq> None | _ \<Rightarrow> False)
       ''Value must belong to the given values''"

text \<open>
  \<open>lambda slug: index_by_slug[slug]\<close>. It runs after \<open>test_in(index_by_slug)\<close> in the
  pipe, so the key is present; the other branches are never reached.
\<close>

definition slug_to_index :: "(string \<times> int) list \<Rightarrow> pyval \<Rightarrow> pyval" where
  "slug_to_index index v =
     (case v of
        PStr s \<Rightarrow> (case map_of index s of Some i \<Rightarrow> PInt i | None \<Rightarrow> PNone)
      | _ \<Rightarrow> PNone)"

text \<open>
  \<open>EnumCol.json_to_python\<close>. The property stores the index in the object on first use,
  so it returns the object with the converter. \<open>min\<close> of an empty dict raises
  \<open>ValueError\<close>, after the index has been stored.
\<close>

definition EnumCol_json_to_python ::
  "(string \<Rightarrow> int option) \<Rightarrow> (string \<Rightarrow> string) \<Rightarrow> column \<Rightarrow> column \<times> (pyerror + converter)" where
  "EnumCol_json_to_python int_of_str slugify self =
     (case col_enum self of
        None \<Rightarrow>
          (self, Inr (pipe [test_isinstance [Cls_basestring, Cls_int],
                            anything_to_int int_of_str,
                            default (col_default self)]))
      | Some enum \<Rightarrow>
          (let (self, index) =
                 (case index_by_slug self of
                    None \<Rightarrow>
                      (let index = build_index_by_slug slugify enum
                       in (self\<lparr>index_by_slug := Some index\<rparr>, index))
                  | Some index \<Rightarrow> (self, index));
               keys = map fst enum
           in if col_default self \<noteq> PNone \<and> py_in_keys (col_default self) keys \<or> keys \<noteq> []
              then (self, Inr (pipe
                [test_isinstance [Cls_basestring, Cls_int],
                 condition
                   (anything_to_int int_of_str)
                   (pipe [anything_to_int int_of_str, test_in_keys keys])
                   (pipe [input_to_slug slugify, test_in_index index,
                          function_conv (slug_to_index index)]),
                 default
                   (if col_default self \<noteq> PNone \<and> py_in_keys (col_default self) keys
                    then col_default self
                    else PInt (min_list keys))]))
              else (self, Inl (ValueError ''min() arg is an empty sequence''))))"







text \<open>
  Validating one input, \<open>column.json_to_python(value)\<close>: the property is read, then the
  converter it returned is applied. The result is the converter's pair
  \<open>(value, error)\<close>, or the exception the property raised.
\<close>

definition EnumCol_convert ::
  "(string \<Rightarrow> int option) \<Rightarrow> (string \<Rightarrow> string) \<Rightarrow> column \<Rightarrow> pyval
     \<Rightarrow> pyerror + pyval \<times> string option" where
  "EnumCol_convert int_of_str slugify self v =
     (case snd (EnumCol_json_to_python int_of_str slugify self) of
        Inl e \<Rightarrow> Inl e
      | Inr c \<Rightarrow> Inr (c v))"

text \<open>The index a use of the pipeline works with: the stored one, or else a new one.\<close>

definition index_in_use :: "(string \<Rightarrow> string) \<Rightarrow> column \<Rightarrow> enum_vars \<Rightarrow> (string \<times> int) list" where
  "index_in_use slugify self vars =
     (case index_by_slug self of None \<Rightarrow> build_index_by_slug slugify vars | Some index \<Rightarrow> index)"

text \<open>
  The value an absent input is replaced by: the default of the column when it is a code
  of the enumeration, the lowest code otherwise.
\<close>

definition enum_default :: "column \<Rightarrow> enum_vars \<Rightarrow> pyval" where
  "enum_default self vars =
     (if col_default self \<noteq> PNone \<and> py_in_keys (col_default self) (map fst vars)
      then col_default self
      else PInt (Min (set (map fst vars))))"


section \<open>The evaluator (\<open>simulations.py\<close>)\<close>

text \<open>
  \<open>simulations.py\<close> holds both sides of an unresolved merge. The incoming side defines
  the class \<open>Simulation\<close> with \<open>compute\<close>, \<open>set_entities\<close> and \<open>get_holder_by_name\<close>,
  modelled in this section; the other side, with \<open>_preproc\<close> and \<open>_compute\<close>, follows
  in the next one.
\<close>

subsection \<open>Holders, formulas and entities\<close>

text \<open>
  Modelled from the spec: the classes of holders, formulas and entities are not among the
  sources. A holder is the cache cell of one variable: its state and its array, one
  element per member of the entity. A formula binding has the names of the variables
  it reads and a pure function of the legislation snapshot and the arrays of those
  variables. An entity has its registry of columns (\<open>column_by_name\<close>) and its holders
  (\<open>holder_by_name\<close>), both read by \<open>simulations.py\<close>, its formula bindings and its
  member count. Dicts are association lists in iteration order.
\<close>

datatype holder_state = EMPTY | INPUT | COMPUTED

record holder =
  h_state :: holder_state
  h_values :: "pyval list"

record 'l formula =
  required_inputs :: "string list"
  compute_fn :: "'l \<Rightarrow> pyval list list \<Rightarrow> pyval list"

record 'l entity =
  column_by_name :: "(string \<times> column) list"
  holder_by_name :: "(string \<times> holder) list"
  formula_by_name :: "(string \<times> 'l formula) list"
  member_count :: nat

text \<open>
  The attributes of a \<open>Simulation\<close> that the methods below use. \<open>entities\<close> and
  \<open>entity_by_column_name\<close> are \<open>None\<close> until \<open>set_entities\<close> is called. The values of
  \<open>entity_by_column_name\<close> are the entity objects of \<open>entities\<close>; an object is named
  here by its key in \<open>entities\<close>, so that a change to an entity is seen through both
  attributes.
\<close>

record 'l simulation =
  compact_legislation :: 'l
  default_compact_legislation :: 'l
  entities :: "(string \<times> 'l entity) list option"
  entity_by_column_name :: "(string \<times> string) list option"

subsection \<open>\<open>Simulation.compute\<close>\<close>

text \<open>\<open>sep.join(xs)\<close>.\<close>

fun join :: "string \<Rightarrow> string list \<Rightarrow> string" where
  "join sep [] = []"
| "join sep [x] = x"
| "join sep (x # xs) = x @ sep @ join sep xs"

text \<open>The message of the assertion: the in-flight names, sorted.\<close>

definition infinite_loop_message :: "string fset \<Rightarrow> string" where
  "infinite_loop_message requested_columns_name =
     ''Infinite loop. Missing values for columns: '' @
     join '', '' (sorted_list_of_fset requested_columns_name)"

text \<open>
  \<open>Simulation.compute\<close>. The method \<open>compute\<close> of the owning entity is the parameter
  \<open>entity_compute\<close>: it takes the key of the entity, the name, the in-flight set and
  the simulation, and returns a result or an exception, with the simulation as it has
  left it. A failed assertion or lookup returns the simulation unchanged.
\<close>

definition compute ::
  "(string \<Rightarrow> string \<Rightarrow> string fset \<Rightarrow> 'l simulation \<Rightarrow> (pyerror + 'r) \<times> 'l simulation)
     \<Rightarrow> 'l simulation \<Rightarrow> string \<Rightarrow> string fset option \<Rightarrow> (pyerror + 'r) \<times> 'l simulation" where
  "compute entity_compute self column_name requested_columns_name =
     (let call = (\<lambda>requested.
            case entity_by_column_name self of
              None \<Rightarrow> (Inl (TypeError ''NoneType object has no attribute __getitem__''), self)
            | Some owners \<Rightarrow>
                (case map_of owners column_name of
                   None \<Rightarrow> (Inl (KeyError column_name), self)
                 | Some key \<Rightarrow> entity_compute key column_name requested self))
      in case requested_columns_name of
           None \<Rightarrow> call {||}
         | Some requested \<Rightarrow>
             if column_name |\<in>| requested
             then (Inl (AssertionError (infinite_loop_message requested)), self)
             else call requested)"

subsection \<open>\<open>Simulation.set_entities\<close>\<close>

text \<open>
  \<open>dict((column_name, entity) for entity in entities.itervalues() for column_name in
  entity.column_by_name.iterkeys())\<close>: a name met again replaces the entity stored for it.
\<close>

definition owner_pairs :: "(string \<times> 'l entity) list \<Rightarrow> (string \<times> string) list" where
  "owner_pairs ents =
     concat (map (\<lambda>(key, entity). map (\<lambda>(column_name, _). (column_name, key))
                                      (column_by_name entity)) ents)"

definition set_entities :: "'l simulation \<Rightarrow> (string \<times> 'l entity) list \<Rightarrow> 'l simulation" where
  "set_entities self ents =
     self\<lparr> entities := Some ents,
           entity_by_column_name :=
             Some (foldl (\<lambda>d (column_name, key). AList.update column_name key d) []
                     (owner_pairs ents)) \<rparr>"

subsection \<open>\<open>Simulation.get_holder_by_name\<close>\<close>

text \<open>
  The argument \<open>default\<close> is \<open>None\<close> when the caller gives none (the sentinel
  \<open>UnboundLocalError\<close> of the signature) and \<open>Some d\<close> when the caller gives \<open>d\<close>. The
  method returns a holder (\<open>Inl\<close>) or the default (\<open>Inr\<close>). The entity stored for a
  name is an object of \<open>entities\<close>, so the lookup of its key there cannot fail in a state
  that \<open>set_entities\<close> has produced.
\<close>

definition get_holder_by_name ::
  "'l simulation \<Rightarrow> string \<Rightarrow> 'd option \<Rightarrow> pyerror + (holder + 'd)" where
  "get_holder_by_name self column_name default_arg =
     (case entity_by_column_name self of
        None \<Rightarrow> Inl (TypeError ''NoneType object has no attribute __getitem__'')
      | Some owners \<Rightarrow>
          (case map_of owners column_name of
             None \<Rightarrow> Inl (KeyError column_name)
           | Some key \<Rightarrow>
               (case map_of (case entities self of None \<Rightarrow> [] | Some ents \<Rightarrow> ents) key of
                  None \<Rightarrow> Inl (KeyError key)
                | Some entity \<Rightarrow>
                    (case default_arg of
                       None \<Rightarrow>
                         (case map_of (holder_by_name entity) column_name of
                            None \<Rightarrow> Inl (KeyError column_name)
                          | Some h \<Rightarrow> Inr (Inl h))
                     | Some d \<Rightarrow>
                         (case map_of (holder_by_name entity) column_name of
                            None \<Rightarrow> Inr (Inr d)
                          | Some h \<Rightarrow> Inr (Inl h))))))"

subsection \<open>The method \<open>compute\<close> of an entity\<close>

text \<open>Modelled from the spec: storing a holder in the entity with the given key.\<close>

definition put_holder :: "'l simulation \<Rightarrow> string \<Rightarrow> string \<Rightarrow> holder \<Rightarrow> 'l simulation" where
  "put_holder self key column_name h =
     self\<lparr> entities :=
       map_option
         (map (\<lambda>(k, entity).
            if k = key
            then (k, entity\<lparr>holder_by_name := AList.update column_name h (holder_by_name entity)\<rparr>)
            else (k, entity)))
         (entities self) \<rparr>"

text \<open>
  Modelled from the spec: the loop of \<open>Entity.compute\<close> over the required inputs of a
  formula. They are computed in turn through \<open>Simulation.compute\<close>
  (the parameter \<open>c\<close>), each with the same in-flight set; the first exception ends the loop.
\<close>

fun compute_inputs ::
  "('l simulation \<Rightarrow> string \<Rightarrow> string fset option \<Rightarrow> (pyerror + pyval list) \<times> 'l simulation)
     \<Rightarrow> string list \<Rightarrow> string fset \<Rightarrow> 'l simulation
     \<Rightarrow> (pyerror + pyval list list) \<times> 'l simulation" where
  "compute_inputs c [] requested self = (Inr [], self)"
| "compute_inputs c (name # names) requested self =
     (case c self name (Some requested) of
        (Inl e, self') \<Rightarrow> (Inl e, self')
      | (Inr a, self') \<Rightarrow>
          (case compute_inputs c names requested self' of
             (Inl e, self'') \<Rightarrow> (Inl e, self'')
           | (Inr arrays, self'') \<Rightarrow> (Inr (a # arrays), self'')))"

text \<open>
  Modelled from the spec: \<open>Entity.compute\<close> is not among the sources. After sections 4.3
  and 4.4 of the spec: the holder of the variable is created on first access; a holder
  that is not \<open>EMPTY\<close> returns its array; an \<open>EMPTY\<close> holder without a formula is filled
  with the default value of the column and stays \<open>EMPTY\<close>; an \<open>EMPTY\<close> holder with a
  formula computes each required input through \<open>Simulation.compute\<close>, with the variable
  added to the in-flight set, applies the formula to the arrays and the legislation of
  the simulation, and stores the result as \<open>COMPUTED\<close>. The first argument bounds the
  depth of the recursion, as the interpreter's recursion limit does; at depth 0 the call
  raises the interpreter's \<open>RuntimeError\<close>.
\<close>

fun Entity_compute ::
  "nat \<Rightarrow> string \<Rightarrow> string \<Rightarrow> string fset \<Rightarrow> 'l simulation
     \<Rightarrow> (pyerror + pyval list) \<times> 'l simulation" where
  "Entity_compute 0 key column_name requested self =
     (Inl (RuntimeError ''maximum recursion depth exceeded''), self)"
| "Entity_compute (Suc depth) key column_name requested self =
     (case map_of (case entities self of None \<Rightarrow> [] | Some ents \<Rightarrow> ents) key of
        None \<Rightarrow> (Inl (KeyError key), self)
      | Some entity \<Rightarrow>
          (case map_of (column_by_name entity) column_name of
             None \<Rightarrow> (Inl (KeyError column_name), self)
           | Some column \<Rightarrow>
               (let h = (case map_of (holder_by_name entity) column_name of
                           None \<Rightarrow> \<lparr>h_state = EMPTY, h_values = []\<rparr>
                         | Some h \<Rightarrow> h)
                in if h_state h \<noteq> EMPTY then (Inr (h_values h), self)
                   else
                     (case map_of (formula_by_name entity) column_name of
                        None \<Rightarrow>
                          (let filled = replicate (member_count entity) (col_default column)
                           in (Inr filled,
                               put_holder self key column_name \<lparr>h_state = EMPTY, h_values = filled\<rparr>))
                      | Some f \<Rightarrow>
                          (case compute_inputs (compute (Entity_compute depth))
                                  (required_inputs f) (finsert column_name requested)
                                  (put_holder self key column_name h) of
                             (Inl e, self') \<Rightarrow> (Inl e, self')
                           | (Inr arrays, self') \<Rightarrow>
                               (let result = compute_fn f (compact_legislation self') arrays
                                in (Inr result,
                                    put_holder self' key column_name
                                      \<lparr>h_state = COMPUTED, h_values = result\<rparr>)))))))"

text \<open>The names that have an owner in a simulation.\<close>

definition owned :: "'l simulation \<Rightarrow> string set" where
  "owned s = (case entity_by_column_name s of None \<Rightarrow> {} | Some owners \<Rightarrow> fst ` set owners)"

section \<open>Reform mode (\<open>simulations.py\<close>, the other side of the merge)\<close>

text \<open>
  The class \<open>Simulation\<close> of the other side prepares two output tables in \<open>_preproc\<close>
  and evaluates them in \<open>_compute\<close>. The tables are objects that the methods mutate,
  and in one mode the two attributes hold the same object, so the objects live in an
  explicit heap: a list of objects, in which the address of an object is its index.
\<close>

subsection \<open>Input tables and output tables\<close>

text \<open>
  Modelled from the spec: the classes \<open>DataTable\<close> and \<open>TaxBenefitSystem\<close> are not among
  the sources. An input table has its columns and, for each, the array of input values.
  An output table is what the spec calls a simulation of the dual-legislation mode: it
  has the legislation snapshot its formulas are evaluated with, a reference to the input
  table, and its own table of computed arrays; the variables it computes are the
  prestations, each a column with a formula.
\<close>

record data_table =
  dt_column_by_name :: "(string \<times> column) list"
  dt_values :: "(string \<times> pyval list) list"
  dt_rows :: nat

record 'l prestation =
  p_column :: column
  p_formula :: "'l formula"

record 'l tax_benefit_system =
  tbs_prestation_by_name :: "(string \<times> 'l prestation) list"
  tbs_param :: 'l
  tbs_default_param :: 'l
  tbs_inputs :: "nat option"
  tbs_computed :: "(string \<times> pyval list) list"
  tbs_disabled :: "string list"
  tbs_attributes :: "(string \<times> pyval) list"

record 'l heap =
  output_tables :: "'l tax_benefit_system list"
  input_tables :: "data_table list"

text \<open>
  Modelled from the spec: the constructor \<open>TaxBenefitSystem(prestation_by_name, param,
  default_param)\<close> allocates a new object, with no inputs and nothing computed, and
  returns its address.
\<close>

definition TaxBenefitSystem ::
  "(string \<times> 'l prestation) list \<Rightarrow> 'l \<Rightarrow> 'l \<Rightarrow> 'l heap \<Rightarrow> nat \<times> 'l heap" where
  "TaxBenefitSystem prestations param default_param h =
     (length (output_tables h),
      h\<lparr>output_tables := output_tables h @
          [\<lparr> tbs_prestation_by_name = prestations,
              tbs_param = param,
              tbs_default_param = default_param,
              tbs_inputs = None,
              tbs_computed = [],
              tbs_disabled = [],
              tbs_attributes = [] \<rparr>]\<rparr>)"

text \<open>A method that changes the object at an address.\<close>

definition update_table ::
  "nat \<Rightarrow> ('l tax_benefit_system \<Rightarrow> 'l tax_benefit_system) \<Rightarrow> 'l heap \<Rightarrow> 'l heap" where
  "update_table a f h = h\<lparr>output_tables := (output_tables h)[a := f (output_tables h ! a)]\<rparr>"

text \<open>
  Modelled from the spec: \<open>set_inputs(input_table)\<close> keeps the reference to the input
  table; the table is shared, not copied.
\<close>

definition set_inputs :: "nat \<Rightarrow> nat \<Rightarrow> 'l heap \<Rightarrow> 'l heap" where
  "set_inputs a input_table = update_table a (\<lambda>t. t\<lparr>tbs_inputs := Some input_table\<rparr>)"

text \<open>
  Modelled from the spec: \<open>disable(disabled_prestations)\<close>. The named prestations stay
  at their default value, as the docstring of \<open>disable_prestations\<close> says; \<open>None\<close>
  disables nothing.
\<close>

definition disable :: "nat \<Rightarrow> string list option \<Rightarrow> 'l heap \<Rightarrow> 'l heap" where
  "disable a disabled_prestations =
     update_table a (\<lambda>t. t\<lparr>tbs_disabled :=
       (case disabled_prestations of None \<Rightarrow> [] | Some names \<Rightarrow> names)\<rparr>)"

text \<open>Modelled from the spec: \<open>reset()\<close> forgets what the table has computed.\<close>

definition reset :: "nat \<Rightarrow> 'l heap \<Rightarrow> 'l heap" where
  "reset a = update_table a (\<lambda>t. t\<lparr>tbs_computed := []\<rparr>)"

text \<open>\<open>setattr(table, key, val)\<close> for the keyword arguments of \<open>_compute\<close>, which name
  options of the output such as \<open>decomp_file\<close>, not the attributes above.\<close>

definition setattr :: "nat \<Rightarrow> string \<Rightarrow> pyval \<Rightarrow> 'l heap \<Rightarrow> 'l heap" where
  "setattr a key val =
     update_table a (\<lambda>t. t\<lparr>tbs_attributes := AList.update key val (tbs_attributes t)\<rparr>)"

text \<open>
  Modelled from the spec: the evaluation state of an output table over its input table: one entity whose holders
  are the input arrays (\<open>INPUT\<close>) and the arrays the table has computed (\<open>COMPUTED\<close>),
  and whose formulas are those of the prestations that are not disabled.
\<close>

definition table_entity :: "'l tax_benefit_system \<Rightarrow> data_table \<Rightarrow> 'l entity" where
  "table_entity t inputs =
     \<lparr> column_by_name =
         dt_column_by_name inputs @ map (\<lambda>(name, p). (name, p_column p)) (tbs_prestation_by_name t),
       holder_by_name =
         map (\<lambda>(name, a). (name, \<lparr>h_state = INPUT, h_values = a\<rparr>)) (dt_values inputs) @
         map (\<lambda>(name, a). (name, \<lparr>h_state = COMPUTED, h_values = a\<rparr>)) (tbs_computed t),
       formula_by_name =
         map (\<lambda>(name, p). (name, p_formula p))
           (filter (\<lambda>(name, p). name \<notin> set (tbs_disabled t)) (tbs_prestation_by_name t)),
       member_count = dt_rows inputs \<rparr>"

definition table_simulation :: "'l tax_benefit_system \<Rightarrow> data_table \<Rightarrow> 'l simulation" where
  "table_simulation t inputs =
     set_entities
       \<lparr> compact_legislation = tbs_param t,
         default_compact_legislation = tbs_default_param t,
         entities = None,
         entity_by_column_name = None \<rparr>
       [(''table'', table_entity t inputs)]"

text \<open>Modelled from the spec: the arrays in state \<open>COMPUTED\<close> of an evaluation state.\<close>

definition computed_arrays :: "'l simulation \<Rightarrow> (string \<times> pyval list) list" where
  "computed_arrays s =
     concat (map (\<lambda>(key, e).
        map (\<lambda>(name, h). (name, h_values h))
          (filter (\<lambda>(name, h). h_state h = COMPUTED) (holder_by_name e)))
       (case entities s of None \<Rightarrow> [] | Some ents \<Rightarrow> ents))"

text \<open>
  Modelled from the spec: every name of the list is computed in turn by the evaluation
  protocol; the first exception ends the loop.
\<close>

fun compute_all ::
  "nat \<Rightarrow> string list \<Rightarrow> 'l simulation
     \<Rightarrow> (pyerror + (string \<times> pyval list) list) \<times> 'l simulation" where
  "compute_all depth [] s = (Inr [], s)"
| "compute_all depth (name # names) s =
     (case compute (Entity_compute depth) s name None of
        (Inl e, s') \<Rightarrow> (Inl e, s')
      | (Inr a, s') \<Rightarrow>
          (case compute_all depth names s' of
             (Inl e, s'') \<Rightarrow> (Inl e, s'')
           | (Inr arrays, s'') \<Rightarrow> (Inr ((name, a) # arrays), s'')))"

text \<open>
  Modelled from the spec: \<open>calculate()\<close> on one table, given the input table its
  reference leads to: every
  prestation is computed with the legislation of the table, from the inputs and from
  what the table has computed before; the new arrays are kept in the table. The result
  is the array of each prestation, or the exception raised.
\<close>

definition calculate_table ::
  "nat \<Rightarrow> 'l tax_benefit_system \<Rightarrow> data_table
     \<Rightarrow> (pyerror + (string \<times> pyval list) list) \<times> 'l tax_benefit_system" where
  "calculate_table depth t inputs =
     (case compute_all depth (map fst (tbs_prestation_by_name t)) (table_simulation t inputs) of
        (r, s) \<Rightarrow> (r, t\<lparr>tbs_computed := computed_arrays s\<rparr>))"

text \<open>
  Modelled from the spec: \<open>calculate()\<close> on the object at an address. A table without
  inputs has nothing to read.
\<close>

definition calculate ::
  "nat \<Rightarrow> nat \<Rightarrow> 'l heap \<Rightarrow> (pyerror + (string \<times> pyval list) list) \<times> 'l heap" where
  "calculate depth a h =
     (case tbs_inputs (output_tables h ! a) of
        None \<Rightarrow> (Inl (AttributeError ''table''), h)
      | Some i \<Rightarrow>
          (case calculate_table depth (output_tables h ! a) (input_tables h ! i) of
             (r, t) \<Rightarrow> (r, update_table a (\<lambda>_. t) h)))"

subsection \<open>\<open>_preproc\<close> and \<open>_compute\<close>\<close>

text \<open>
  The attributes of the simulation that the two methods use. \<open>input_table\<close>,
  \<open>output_table\<close> and \<open>output_table_default\<close> are references into the heap. The dicts
  \<open>io_column_by_label\<close> and \<open>io_column_by_name\<close>, which the methods refill for the
  user interface, and the arguments \<open>datesim\<close> and \<open>num_table\<close> are left out: no table
  is reached through them.
\<close>

record 'l reform_simulation =
  P :: 'l
  P_default :: 'l
  prestation_by_name :: "(string \<times> 'l prestation) list"
  input_table :: nat
  output_table :: "nat option"
  output_table_default :: "nat option"
  reforme :: bool
  disabled_prestations :: "string list option"
  data :: "(string \<times> pyval list) list option"
  data_default :: "(string \<times> pyval list) list option"

text \<open>\<open>Simulation._preproc\<close>.\<close>

definition preproc :: "'l reform_simulation \<Rightarrow> 'l heap \<Rightarrow> 'l reform_simulation \<times> 'l heap" where
  "preproc self h =
     (let (out, h) = TaxBenefitSystem (prestation_by_name self) (P self) (P_default self) h;
          h = set_inputs out (input_table self) h;
          (out_default, h) =
            (if reforme self
             then (let (out_default, h) =
                         TaxBenefitSystem (prestation_by_name self) (P_default self) (P_default self) h
                   in (out_default, set_inputs out_default (input_table self) h))
             else (out, h));
          h = disable out (disabled_prestations self) h;
          h = disable out_default (disabled_prestations self) h
      in (self\<lparr>output_table := Some out,
                output_table_default := Some out_default\<rparr>, h))"

text \<open>
  \<open>Simulation._compute\<close>. The keyword arguments are a list of pairs. An exception of
  \<open>calculate\<close> ends the method; the result is that exception or \<open>None\<close>.
\<close>

definition private_compute ::
  "nat \<Rightarrow> 'l reform_simulation \<Rightarrow> (string \<times> pyval) list \<Rightarrow> 'l heap
     \<Rightarrow> pyerror option \<times> 'l reform_simulation \<times> 'l heap" where
  "private_compute depth self kwargs h =
     (let (self, h) = preproc self h
      in case (output_table self, output_table_default self) of
           (Some out, Some out_default) \<Rightarrow>
             (let h = foldl (\<lambda>h (key, val).
                         setattr out_default key val (setattr out key val h))
                       h kwargs
              in case calculate depth out h of
                   (Inl e, h) \<Rightarrow> (Some e, self, h)
                 | (Inr d, h) \<Rightarrow>
                     if reforme self
                     then (let h = reset out_default h;
                               h = disable out_default (disabled_prestations self) h
                           in case calculate depth out_default h of
                                (Inl e, h) \<Rightarrow> (Some e, self, h)
                              | (Inr d_default, h) \<Rightarrow>
                                  (None, self\<lparr>data := Some d, data_default := Some d_default\<rparr>, h))
                     else (None, self\<lparr>data := Some d, data_default := Some d\<rparr>, h))
         | _ \<Rightarrow> (Some (AttributeError ''output_table''), self, h))"

text \<open>
  The output table of one legislation as it stands before its \<open>calculate\<close> when it is
  prepared on its own: constructed, given the inputs, the disabled prestations and the
  keyword arguments, with nothing computed.
\<close>

definition prepared_table ::
  "'l reform_simulation \<Rightarrow> 'l \<Rightarrow> (string \<times> pyval) list \<Rightarrow> 'l tax_benefit_system" where
  "prepared_table self param kwargs =
     \<lparr> tbs_prestation_by_name = prestation_by_name self,
       tbs_param = param,
       tbs_default_param = P_default self,
       tbs_inputs = Some (input_table self),
       tbs_computed = [],
       tbs_disabled = (case disabled_prestations self of None \<Rightarrow> [] | Some names \<Rightarrow> names),
       tbs_attributes = foldl (\<lambda>d (key, val). AList.update key val d) [] kwargs \<rparr>"

section \<open>Example inputs\<close>

text \<open>The enumeration of the spec's example, and a column built on it.\<close>

definition marital_status :: enum_vars where
  "marital_status = [(0, ''single''), (1, ''married'')]"

definition marital_col :: column where
  "marital_col = EnumCol_init (Some marital_status) no_kwargs"

text \<open>An enumeration whose labels are numerals: the sizes of a household.\<close>

definition household_size :: enum_vars where
  "household_size = [(0, ''1''), (1, ''2'')]"

definition household_col :: column where
  "household_col = EnumCol_init (Some household_size) no_kwargs"

text \<open>
  Three variables of one entity whose formulas read one another in a cycle: \<open>A\<close> reads
  \<open>B\<close>, \<open>B\<close> reads \<open>C\<close> and \<open>C\<close> reads \<open>A\<close>. Each formula returns its input.
\<close>

definition pass_through :: "string \<Rightarrow> unit formula" where
  "pass_through name =
     \<lparr> required_inputs = [name],
       compute_fn = (\<lambda>_ arrays. case arrays of [] \<Rightarrow> [] | a # _ \<Rightarrow> a) \<rparr>"

definition chain_entity :: "unit entity" where
  "chain_entity =
     \<lparr> column_by_name =
         [(''A'', Column_init FloatCol no_kwargs),
          (''B'', Column_init FloatCol no_kwargs),
          (''C'', Column_init FloatCol no_kwargs)],
       holder_by_name = [],
       formula_by_name =
         [(''A'', pass_through ''B''), (''B'', pass_through ''C''), (''C'', pass_through ''A'')],
       member_count = 3 \<rparr>"

definition new_simulation :: "'l \<Rightarrow> 'l \<Rightarrow> 'l simulation" where
  "new_simulation legislation default_legislation =
     \<lparr> compact_legislation = legislation,
       default_compact_legislation = default_legislation,
       entities = None,
       entity_by_column_name = None \<rparr>"

definition chain_sim :: "unit simulation" where
  "chain_sim = set_entities (new_simulation () ()) [(''ind'', chain_entity)]"

text \<open>
  The scenario of the spec: three individuals, the input \<open>salary\<close> and the variable
  \<open>tax\<close>, whose formula multiplies the salary by the rate of the legislation.
\<close>

definition tax_formula :: "rat formula" where
  "tax_formula =
     \<lparr> required_inputs = [''salary''],
       compute_fn = (\<lambda>rate arrays.
         case arrays of
           [] \<Rightarrow> []
         | salary # _ \<Rightarrow>
             map (\<lambda>v. case as_number v of Some x \<Rightarrow> PFloat (x * rate) | None \<Rightarrow> PNone) salary) \<rparr>"

definition individual :: "rat entity" where
  "individual =
     \<lparr> column_by_name =
         [(''salary'', Column_init FloatCol no_kwargs), (''tax'', Column_init FloatCol no_kwargs)],
       holder_by_name =
         [(''salary'', \<lparr>h_state = INPUT, h_values = [PFloat 1000, PFloat 0, PFloat 500]\<rparr>)],
       formula_by_name = [(''tax'', tax_formula)],
       member_count = 3 \<rparr>"

definition tax_sim :: "rat \<Rightarrow> rat simulation" where
  "tax_sim rate = set_entities (new_simulation rate rate) [(''individual'', individual)]"

text \<open>
  The reform scenario of the spec: the same inputs, the rate 0.1 in the legislation and
  0.2 in the default legislation.
\<close>

definition salary_table :: data_table where
  "salary_table =
     \<lparr> dt_column_by_name = [(''salary'', Column_init FloatCol no_kwargs)],
       dt_values = [(''salary'', [PFloat 1000, PFloat 0, PFloat 500])],
       dt_rows = 3 \<rparr>"

definition reform_heap :: "rat heap" where
  "reform_heap = \<lparr> output_tables = [], input_tables = [salary_table] \<rparr>"

definition reform_sim :: "rat reform_simulation" where
  "reform_sim =
     \<lparr> P = 1 / 10,
       P_default = 2 / 10,
       prestation_by_name =
         [(''tax'', \<lparr>p_column = Column_init FloatCol no_kwargs, p_formula = tax_formula\<rparr>)],
       input_table = 0,
       output_table = None,
       output_table_default = None,
       reforme = True,
       disabled_prestations = None,
       data = None,
       data_default = None \<rparr>"

section \<open>Properties of the columns\<close>

lemmas conv_defs =
  test_isinstance_def test_def isinstance_def test_in_keys_def test_in_index_def
  condition_def default_def function_conv_def anything_to_int_def input_to_slug_def
  slug_to_index_def


subsection \<open>Ages\<close>

text \<open>
  C6: for an age-like integer variable, whose unknown-sentinel is -9999, validation
  succeeds exactly on the integer inputs that are at least 0 or equal to -9999, and
  returns the input; every other negative integer, such as -1, is refused with an error.
\<close>

theorem AgesCol_accepts_nonnegative_or_sentinel:
  "(snd (AgesCol_json_to_python self (PInt i)) = None) = (0 \<le> i \<or> i = - 9999) \<and>
   fst (AgesCol_json_to_python self (PInt i)) = PInt i"
  by (simp add: AgesCol_json_to_python_def IntCol_json_to_python_def test_isinstance_def
        test_def isinstance_def test_greater_or_equal_def test_equals_def py_ge_def py_eq_def)

lemma AgesCol_minus_one_refused:
  "AgesCol_json_to_python self (PInt (- 1)) = (PInt (- 1), Some ''Value must be equal to the constant'')"
  by (simp add: AgesCol_json_to_python_def IntCol_json_to_python_def test_isinstance_def
        test_def isinstance_def test_greater_or_equal_def test_equals_def py_ge_def py_eq_def)

subsection \<open>The index of an enumeration\<close>

lemma map_of_index_foldl:
  "map_of (foldl (\<lambda>d (i, n). AList.update (s n) i d) d xs) =
   foldl (\<lambda>m (i, n). m(s n \<mapsto> i)) (map_of d) xs"
  by (induction xs arbitrary: d) (auto simp: update_conv')

lemma foldl_upd_Some:
  "foldl (\<lambda>m (i, n). m(s n \<mapsto> i)) m xs g = Some k \<Longrightarrow>
   m g = Some k \<or> (\<exists>n. (k, n) \<in> set xs \<and> s n = g)"
  by (induction xs arbitrary: m) (fastforce split: if_splits)+

lemma foldl_upd_dom:
  "dom (foldl (\<lambda>m (i, n). m(s n \<mapsto> i)) m xs) = dom m \<union> (\<lambda>(i, n). s n) ` set xs"
  by (induction xs arbitrary: m) auto

lemma foldl_upd_distinct:
  "distinct (map (\<lambda>(i, n). s n) xs) \<Longrightarrow> (k, n) \<in> set xs \<Longrightarrow>
   foldl (\<lambda>m (i, n). m(s n \<mapsto> i)) m xs (s n) = Some k"
proof (induction xs arbitrary: m)
  case Nil
  then show ?case by simp
next
  case (Cons x xs)
  obtain i' n' where x: "x = (i', n')" by (cases x)
  show ?case
  proof (cases "(k, n) \<in> set xs")
    case True
    with Cons show ?thesis by simp
  next
    case False
    with Cons.prems x have eq: "i' = k" "n' = n" by auto
    from Cons.prems x eq have notin: "s n \<notin> (\<lambda>(i, n). s n) ` set xs" by auto
    have "foldl (\<lambda>m (i, n). m(s n \<mapsto> i)) (m(s n \<mapsto> k)) xs (s n) = Some k"
    proof (cases "foldl (\<lambda>m (i, n). m(s n \<mapsto> i)) (m(s n \<mapsto> k)) xs (s n)")
      case None
      then have "s n \<notin> dom (foldl (\<lambda>m (i, n). m(s n \<mapsto> i)) (m(s n \<mapsto> k)) xs)" by auto
      then show ?thesis by (simp add: foldl_upd_dom)
    next
      case (Some k')
      from foldl_upd_Some [OF Some]
      have "k' = k \<or> (\<exists>n'. (k', n') \<in> set xs \<and> s n' = s n)" by auto
      moreover have "\<not> (\<exists>n'. (k', n') \<in> set xs \<and> s n' = s n)"
        using notin by force
      ultimately show ?thesis using Some by simp
    qed
    with x eq show ?thesis by (simp del: fun_upd_apply)
  qed
qed

text \<open>Every entry of the index is the code of a label with that slug.\<close>

lemma index_sound:
  "map_of (build_index_by_slug s vars) g = Some k \<Longrightarrow> \<exists>n. (k, n) \<in> set vars \<and> s n = g"
  using foldl_upd_Some [of s Map.empty "sort_key fst vars" g k]
  by (simp add: build_index_by_slug_def map_of_index_foldl)

text \<open>The keys of the index are the slugs of the labels.\<close>

lemma index_dom:
  "dom (map_of (build_index_by_slug s vars)) = (\<lambda>(i, n). s n) ` set vars"
  by (simp add: build_index_by_slug_def map_of_index_foldl foldl_upd_dom)

text \<open>When no two labels share a slug, the index sends the slug of each label to its code.\<close>

lemma index_complete:
  assumes "distinct (map (\<lambda>(i, n). s n) vars)" "(k, n) \<in> set vars"
  shows "map_of (build_index_by_slug s vars) (s n) = Some k"
proof -
  have "distinct (map (\<lambda>(i, n). s n) (sort_key fst vars))"
    using assms(1) by (simp add: distinct_map)
  then show ?thesis
    using assms(2) foldl_upd_distinct [of s "sort_key fst vars" k n Map.empty]
    by (simp add: build_index_by_slug_def map_of_index_foldl)
qed

subsection \<open>Validation against an enumeration\<close>




lemma convert_label:
  assumes "col_enum self = Some vars" "vars \<noteq> []" "i l = None" "s l \<noteq> []"
  shows "EnumCol_convert i s self (PStr l) =
         Inr (case map_of (index_in_use s self vars) (s l) of
                Some k \<Rightarrow> (PInt k, None)
              | None \<Rightarrow> (PStr (s l), Some ''Value must belong to the given values''))"
  using assms
  by (simp add: EnumCol_convert_def EnumCol_json_to_python_def conv_defs index_in_use_def
        Let_def split: option.splits prod.splits)

lemma convert_blank:
  assumes "col_enum self = Some vars" "vars \<noteq> []" "i l = None" "s l = []"
  shows "EnumCol_convert i s self (PStr l) = Inr (enum_default self vars, None)"
  using assms
  by (simp add: EnumCol_convert_def EnumCol_json_to_python_def enum_default_def conv_defs
        min_list_Min Let_def split: option.splits prod.splits)






lemma household_col_index: "index_by_slug household_col = None"
  by (simp add: household_col_def EnumCol_init_def Column_init_def class_attributes_def
        no_kwargs_def Let_def)









text \<open>
  When no two labels share a slug and the index has not been stored yet, each label of
  the enumeration that is not a numeral is sent to its own code.
\<close>

lemma EnumCol_label_to_its_code:
  assumes "col_enum self = Some vars" "index_by_slug self = None"
    and "distinct (map (\<lambda>(c, n). s n) vars)" and "(k, l) \<in> set vars"
    and "i l = None" and "s l \<noteq> []"
  shows "EnumCol_convert i s self (PStr l) = Inr (PInt k, None)"
proof -
  from assms(4) have ne: "vars \<noteq> []" by auto
  have "map_of (index_in_use s self vars) (s l) = Some k"
    using assms by (simp add: index_in_use_def index_complete)
  then show ?thesis using assms ne by (simp add: convert_label)
qed



subsection \<open>The stored index\<close>







subsection \<open>Serialization\<close>

text \<open>No constructor of \<open>columns.py\<close> gives the object an attribute \<open>freq\<close>.\<close>

lemma Column_init_freq: "freq (Column_init c kw) = None"
  by (simp add: Column_init_def class_attributes_def Let_def)

lemma EnumCol_init_freq: "freq (EnumCol_init e kw) = None"
  by (simp add: EnumCol_init_def Column_init_freq Let_def split: option.splits)

lemma to_json_without_freq:
  "freq self = None \<Longrightarrow> cls self \<noteq> Column \<Longrightarrow> to_json self = Inl (AttributeError ''freq'')"
  by (cases "cls self") (simp_all add: to_json_def EnumCol_to_json_def Column_to_json_def Let_def)

text \<open>
  C8 asks that \<open>to_json\<close> succeeds on every descriptor and returns its metadata record.
  On a descriptor as \<open>columns.py\<close> constructs it, an integer column or the enumerated
  column of the example, the call raises \<open>AttributeError\<close> at \<open>self.freq\<close>.
\<close>

theorem to_json_raises_AttributeError:
  "to_json (Column_init IntCol no_kwargs) = Inl (AttributeError ''freq'') \<and>
   to_json marital_col = Inl (AttributeError ''freq'')"
proof -
  have a: "cls (Column_init IntCol no_kwargs) = IntCol"
    by (simp add: Column_init_def class_attributes_def no_kwargs_def Let_def)
  have b: "cls marital_col = EnumCol"
    by (simp add: marital_col_def EnumCol_init_def Column_init_def class_attributes_def no_kwargs_def Let_def)
  have c: "freq marital_col = None"
    by (simp add: marital_col_def EnumCol_init_freq)
  have "to_json (Column_init IntCol no_kwargs) = Inl (AttributeError ''freq'')"
    by (rule to_json_without_freq) (simp_all add: Column_init_freq a)
  moreover have "to_json marital_col = Inl (AttributeError ''freq'')"
    by (rule to_json_without_freq) (simp_all add: b c)
  ultimately show ?thesis by (rule conjI)
qed



text \<open>
  What the projection holds once an attribute \<open>freq\<close> has been given to the object from
  outside: the type tag, and the default, entity, label, start and end that are not
  \<open>None\<close>; for an enumerated column with an enumeration, the table of labels.
\<close>

lemma map_of_set_item_if:
  "map_of (set_item_if c k v d) k' = (if c \<and> k = k' then Some v else map_of d k')"
  by (simp add: set_item_if_def update_conv')

lemma Column_to_json_with_freq:
  assumes "freq self = Some f" "json_type (cls self) = Some t"
  shows "\<exists>j. Column_to_json self = Inr j \<and>
           map_of j ''@type'' = Some (Scalar (PStr t)) \<and>
           map_of j ''default'' = (if col_default self \<noteq> PNone then Some (Scalar (col_default self)) else None) \<and>
           map_of j ''entity'' = (if col_entity self \<noteq> PNone then Some (Scalar (col_entity self)) else None) \<and>
           map_of j ''label'' = (if col_label self \<noteq> PNone then Some (Scalar (col_label self)) else None) \<and>
           map_of j ''start'' = (if col_start self \<noteq> PNone then Some (Scalar (date_to_json (col_start self))) else None) \<and>
           map_of j ''end'' = (if col_end self \<noteq> PNone then Some (Scalar (date_to_json (col_end self))) else None) \<and>
           map_of j ''labels'' = None"
  using assms
  by (simp add: Column_to_json_def Let_def map_of_set_item_if)

lemma to_json_with_freq:
  assumes "freq self = Some f" "json_type (cls self) = Some t"
  shows "\<exists>j. to_json self = Inr j \<and>
           map_of j ''@type'' = Some (Scalar (PStr t)) \<and>
           map_of j ''default'' = (if col_default self \<noteq> PNone then Some (Scalar (col_default self)) else None) \<and>
           map_of j ''entity'' = (if col_entity self \<noteq> PNone then Some (Scalar (col_entity self)) else None) \<and>
           map_of j ''label'' = (if col_label self \<noteq> PNone then Some (Scalar (col_label self)) else None) \<and>
           map_of j ''start'' = (if col_start self \<noteq> PNone then Some (Scalar (date_to_json (col_start self))) else None) \<and>
           map_of j ''end'' = (if col_end self \<noteq> PNone then Some (Scalar (date_to_json (col_end self))) else None) \<and>
           map_of j ''labels'' =
             (if cls self = EnumCol then map_option (\<lambda>enum. Labels (foldl (\<lambda>d (index, label). AList.update index label d) [] enum)) (col_enum self)
              else None)"
proof -
  from Column_to_json_with_freq [OF assms] obtain j where j: "Column_to_json self = Inr j"
    and rest: "map_of j ''@type'' = Some (Scalar (PStr t))"
      "map_of j ''default'' = (if col_default self \<noteq> PNone then Some (Scalar (col_default self)) else None)"
      "map_of j ''entity'' = (if col_entity self \<noteq> PNone then Some (Scalar (col_entity self)) else None)"
      "map_of j ''label'' = (if col_label self \<noteq> PNone then Some (Scalar (col_label self)) else None)"
      "map_of j ''start'' = (if col_start self \<noteq> PNone then Some (Scalar (date_to_json (col_start self))) else None)"
      "map_of j ''end'' = (if col_end self \<noteq> PNone then Some (Scalar (date_to_json (col_end self))) else None)"
      "map_of j ''labels'' = None"
    by blast
  show ?thesis
  proof (cases "cls self = EnumCol \<and> col_enum self \<noteq> None")
    case False
    then have "to_json self = Inr j"
      by (auto simp: to_json_def EnumCol_to_json_def j)
    with rest False show ?thesis by auto
  next
    case True
    then obtain enum where e: "col_enum self = Some enum" by auto
    with True have "to_json self = Inr (AList.update ''labels''
        (Labels (foldl (\<lambda>d (index, label). AList.update index label d) [] enum)) j)"
      by (simp add: to_json_def EnumCol_to_json_def j)
    with rest True e show ?thesis by (simp add: update_conv')
  qed
qed


section \<open>Properties of the evaluator\<close>

subsection \<open>The cycle of three variables\<close>


lemma chain_owners:
  "entity_by_column_name chain_sim = Some [(''A'', ''ind''), (''B'', ''ind''), (''C'', ''ind'')]"
  by (simp add: chain_sim_def set_entities_def owner_pairs_def chain_entity_def new_simulation_def)

lemma chain_entities: "entities chain_sim = Some [(''ind'', chain_entity)]"
  by (simp add: chain_sim_def set_entities_def)

lemma sorted_CBA: "sorted_list_of_fset (finsert ''C'' (finsert ''B'' (finsert ''A'' {||}))) = [''A'', ''B'', ''C'']"
  by code_simp
lemma sorted_ACB: "sorted_list_of_fset (finsert ''A'' (finsert ''C'' (finsert ''B'' {||}))) = [''A'', ''B'', ''C'']"
  by code_simp
lemma sorted_BAC: "sorted_list_of_fset (finsert ''B'' (finsert ''A'' (finsert ''C'' {||}))) = [''A'', ''B'', ''C'']"
  by code_simp

lemma chain_A:
  "fst (compute (Entity_compute (Suc (Suc (Suc d)))) chain_sim ''A'' None) =
     Inl (AssertionError ''Infinite loop. Missing values for columns: A, B, C'')"
  by (simp add: compute_def chain_sim_def set_entities_def owner_pairs_def new_simulation_def
        chain_entity_def put_holder_def pass_through_def Let_def infinite_loop_message_def sorted_CBA)

lemma chain_B:
  "fst (compute (Entity_compute (Suc (Suc (Suc d)))) chain_sim ''B'' None) =
     Inl (AssertionError ''Infinite loop. Missing values for columns: A, B, C'')"
  by (simp add: compute_def chain_sim_def set_entities_def owner_pairs_def new_simulation_def
        chain_entity_def put_holder_def pass_through_def Let_def infinite_loop_message_def sorted_ACB)

lemma chain_C:
  "fst (compute (Entity_compute (Suc (Suc (Suc d)))) chain_sim ''C'' None) =
     Inl (AssertionError ''Infinite loop. Missing values for columns: A, B, C'')"
  by (simp add: compute_def chain_sim_def set_entities_def owner_pairs_def new_simulation_def
        chain_entity_def put_holder_def pass_through_def Let_def infinite_loop_message_def sorted_BAC)



subsection \<open>The checks of \<open>Simulation.compute\<close>\<close>

lemma compute_in_flight:
  "column_name |\<in>| requested \<Longrightarrow>
   compute ec self column_name (Some requested) =
     (Inl (AssertionError (infinite_loop_message requested)), self)"
  by (simp add: compute_def)

lemma message_names:
  "\<exists>names. set names = fset requested \<and> sorted names \<and>
     infinite_loop_message requested =
       ''Infinite loop. Missing values for columns: '' @ join '', '' names"
  by (rule exI [of _ "sorted_list_of_fset requested"])
     (simp add: infinite_loop_message_def sorted_list_of_fset.rep_eq)

lemma compute_unknown:
  assumes "entity_by_column_name self = Some owners" "map_of owners column_name = None"
    and "\<forall>r. requested = Some r \<longrightarrow> column_name |\<notin>| r"
  shows "compute ec self column_name requested = (Inl (KeyError column_name), self)"
  using assms by (cases requested) (simp_all add: compute_def)

subsection \<open>The owners are not changed by a computation\<close>

lemma put_holder_owners [simp]:
  "entity_by_column_name (put_holder s key c h) = entity_by_column_name s"
  by (simp add: put_holder_def)

lemma compute_keeps_owners:
  assumes "\<And>key c r s. entity_by_column_name (snd (ec key c r s)) = entity_by_column_name s"
  shows "entity_by_column_name (snd (compute ec s c r)) = entity_by_column_name s"
  using assms by (cases r) (simp_all add: compute_def split: option.splits)

lemma compute_inputs_keeps_owners:
  assumes "\<And>s c r. entity_by_column_name (snd (cmp s c r)) = entity_by_column_name s"
  shows "entity_by_column_name (snd (compute_inputs cmp names req s)) = entity_by_column_name s"
proof (induction names arbitrary: s)
  case Nil
  show ?case by simp
next
  case (Cons n names)
  obtain r s' where first: "cmp s n (Some req) = (r, s')" by (cases "cmp s n (Some req)")
  from assms [of s n "Some req"] first have s': "entity_by_column_name s' = entity_by_column_name s"
    by simp
  show ?case
  proof (cases r)
    case (Inl e)
    with first s' show ?thesis by simp
  next
    case (Inr a)
    obtain r2 s2 where rest: "compute_inputs cmp names req s' = (r2, s2)"
      by (cases "compute_inputs cmp names req s'")
    from Cons.IH [of s'] rest s' have "entity_by_column_name s2 = entity_by_column_name s" by simp
    with first Inr rest show ?thesis by (cases r2) simp_all
  qed
qed

lemma Entity_compute_keeps_owners:
  "entity_by_column_name (snd (Entity_compute depth key c r (s :: 'l simulation))) =
   entity_by_column_name s"
proof (induction depth arbitrary: key c r s)
  case 0
  show ?case by simp
next
  case (Suc depth)
  have cmp: "\<And>(s :: 'l simulation) c r.
      entity_by_column_name (snd (compute (Entity_compute depth) s c r)) = entity_by_column_name s"
    by (rule compute_keeps_owners) (rule Suc.IH)
  have inputs: "\<And>names req (s :: 'l simulation). entity_by_column_name
        (snd (compute_inputs (compute (Entity_compute depth)) names req s)) = entity_by_column_name s"
    by (rule compute_inputs_keeps_owners) (rule cmp)
  show ?case
  proof (cases "map_of (case entities s of None \<Rightarrow> [] | Some ents \<Rightarrow> ents) key")
    case None
    then show ?thesis by simp
  next
    case (Some entity)
    show ?thesis
    proof (cases "map_of (column_by_name entity) c")
      case None
      with Some show ?thesis by simp
    next
      case col: (Some column)
      show ?thesis
      proof (cases "map_of (formula_by_name entity) c")
        case None
        with Some col show ?thesis by (simp add: Let_def)
      next
        case f: (Some f)
        define h where "h = (case map_of (holder_by_name entity) c of
                           None \<Rightarrow> \<lparr>h_state = EMPTY, h_values = []\<rparr> | Some h \<Rightarrow> h)"
        obtain r2 s2 where run: "compute_inputs (compute (Entity_compute depth))
             (required_inputs f) (finsert c r) (put_holder s key c h) = (r2, s2)"
          by (cases "compute_inputs (compute (Entity_compute depth))
             (required_inputs f) (finsert c r) (put_holder s key c h)")
        from inputs [of "required_inputs f" "finsert c r" "put_holder s key c h"] run
        have s2: "entity_by_column_name s2 = entity_by_column_name s" by simp
        from Some col f run s2 show ?thesis
          by (cases r2) (simp_all add: Let_def h_def [symmetric])
      qed
    qed
  qed
qed



subsection \<open>The owners built by \<open>set_entities\<close>\<close>

lemma map_of_owner_foldl:
  "map_of (foldl (\<lambda>d (c, k). AList.update c k d) d xs) =
   foldl (\<lambda>m (c, k). m(c \<mapsto> k)) (map_of d) xs"
  by (induction xs arbitrary: d) (auto simp: update_conv')

lemma foldl_owner_Some:
  "foldl (\<lambda>m (c, k). m(c \<mapsto> k)) m xs c = Some k \<Longrightarrow> m c = Some k \<or> (c, k) \<in> set xs"
  by (induction xs arbitrary: m) (fastforce split: if_splits)+

lemma foldl_owner_dom:
  "dom (foldl (\<lambda>m (c, k). m(c \<mapsto> k)) m xs) = dom m \<union> fst ` set xs"
  by (induction xs arbitrary: m) auto

lemma owner_pairs_iff:
  "(c, key) \<in> set (owner_pairs ents) \<longleftrightarrow>
   (\<exists>e. (key, e) \<in> set ents \<and> c \<in> fst ` set (column_by_name e))"
  by (force simp: owner_pairs_def)

lemma set_entities_owners:
  "entity_by_column_name (set_entities self ents) =
     Some (foldl (\<lambda>d (c, k). AList.update c k d) [] (owner_pairs ents))"
  by (simp add: set_entities_def)

lemma owner_is_registered:
  assumes "entity_by_column_name (set_entities self ents) = Some owners"
    and "map_of owners c = Some key"
  shows "\<exists>e. (key, e) \<in> set ents \<and> c \<in> fst ` set (column_by_name e)"
proof -
  from assms(1) have "owners = foldl (\<lambda>d (c, k). AList.update c k d) [] (owner_pairs ents)"
    by (simp add: set_entities_def)
  then have "map_of owners = foldl (\<lambda>m (c, k). m(c \<mapsto> k)) Map.empty (owner_pairs ents)"
    by (simp add: map_of_owner_foldl)
  with assms(2) have "foldl (\<lambda>m (c, k). m(c \<mapsto> k)) Map.empty (owner_pairs ents) c = Some key"
    by simp
  from foldl_owner_Some [OF this] have "(c, key) \<in> set (owner_pairs ents)" by simp
  then show ?thesis by (simp add: owner_pairs_iff)
qed

lemma registered_has_owner:
  assumes "entity_by_column_name (set_entities self ents) = Some owners"
    and "(key, e) \<in> set ents" and "c \<in> fst ` set (column_by_name e)"
  shows "\<exists>key'. map_of owners c = Some key'"
proof -
  from assms(2,3) have "(c, key) \<in> set (owner_pairs ents)"
    by (auto simp: owner_pairs_iff)
  then have "c \<in> fst ` set (owner_pairs ents)" by force
  then have "c \<in> dom (foldl (\<lambda>m (c, k). m(c \<mapsto> k)) Map.empty (owner_pairs ents))"
    by (simp add: foldl_owner_dom)
  moreover from assms(1)
  have "map_of owners = foldl (\<lambda>m (c, k). m(c \<mapsto> k)) Map.empty (owner_pairs ents)"
    by (auto simp: set_entities_def map_of_owner_foldl)
  ultimately show ?thesis by auto
qed

text \<open>
  C7: after \<open>set_entities\<close> the mapping from variable name to entity gives every
  column name registered under some entity exactly one entity, and that entity is one
  whose column registry contains the name; only registered names are mapped. The mapping
  is built by \<open>set_entities\<close> and a later \<open>compute\<close> leaves it as it is.
\<close>

theorem set_entities_variable_owner:
  "\<exists>owners.
     entity_by_column_name (set_entities self ents) = Some owners \<and>
     entities (set_entities self ents) = Some ents \<and>
     (\<forall>key e c. (key, e) \<in> set ents \<and> c \<in> fst ` set (column_by_name e) \<longrightarrow>
        (\<exists>!key'. map_of owners c = Some key') \<and>
        (\<exists>key' e'. map_of owners c = Some key' \<and> (key', e') \<in> set ents \<and>
                   c \<in> fst ` set (column_by_name e'))) \<and>
     (\<forall>c key. map_of owners c = Some key \<longrightarrow>
        (\<exists>e. (key, e) \<in> set ents \<and> c \<in> fst ` set (column_by_name e))) \<and>
     entity_by_column_name
       (snd (compute (Entity_compute depth) (set_entities self ents) column_name requested)) =
       Some owners"
proof -
  define owners where "owners = foldl (\<lambda>d (c, k). AList.update c k d) [] (owner_pairs ents)"
  have o: "entity_by_column_name (set_entities self ents) = Some owners"
    by (simp add: set_entities_def owners_def)
  have e: "entities (set_entities self ents) = Some ents"
    by (simp add: set_entities_def)
  have only_registered: "\<forall>c key. map_of owners c = Some key \<longrightarrow>
        (\<exists>e. (key, e) \<in> set ents \<and> c \<in> fst ` set (column_by_name e))"
    using owner_is_registered [OF o] by blast
  have forth: "\<forall>key e c. (key, e) \<in> set ents \<and> c \<in> fst ` set (column_by_name e) \<longrightarrow>
        (\<exists>!key'. map_of owners c = Some key') \<and>
        (\<exists>key' e'. map_of owners c = Some key' \<and> (key', e') \<in> set ents \<and>
                   c \<in> fst ` set (column_by_name e'))"
  proof (intro allI impI)
    fix key e c
    assume a: "(key, e) \<in> set ents \<and> c \<in> fst ` set (column_by_name e)"
    then obtain key' where k: "map_of owners c = Some key'"
      using registered_has_owner [OF o] by blast
    from only_registered k obtain e' where "(key', e') \<in> set ents \<and> c \<in> fst ` set (column_by_name e')"
      by blast
    with k show "(\<exists>!key'. map_of owners c = Some key') \<and>
        (\<exists>key' e'. map_of owners c = Some key' \<and> (key', e') \<in> set ents \<and>
                   c \<in> fst ` set (column_by_name e'))"
      by auto
  qed
  have keep: "entity_by_column_name
       (snd (compute (Entity_compute depth) (set_entities self ents) column_name requested)) =
       Some owners"
  proof -
    have "entity_by_column_name
       (snd (compute (Entity_compute depth) (set_entities self ents) column_name requested)) =
       entity_by_column_name (set_entities self ents)"
      by (rule compute_keeps_owners) (rule Entity_compute_keeps_owners)
    with o show ?thesis by simp
  qed
  from o e forth only_registered keep show ?thesis by blast
qed

subsection \<open>\<open>get_holder_by_name\<close>\<close>

text \<open>
  C10: for a column name owned by an entity, \<open>get_holder_by_name\<close> without a default
  raises \<open>KeyError\<close> when the entity has no holder for the name, and returns the
  default when one is given; when the holder exists, both forms of the call return it.
\<close>

theorem get_holder_by_name_default:
  assumes "entity_by_column_name self = Some owners" and "map_of owners column_name = Some key"
    and "entities self = Some ents" and "map_of ents key = Some entity"
  shows "(map_of (holder_by_name entity) column_name = None \<longrightarrow>
            get_holder_by_name self column_name (None :: 'd option) = Inl (KeyError column_name) \<and>
            get_holder_by_name self column_name (Some (d :: 'd)) = Inr (Inr d)) \<and>
         (map_of (holder_by_name entity) column_name = Some h \<longrightarrow>
            get_holder_by_name self column_name (None :: 'd option) = Inr (Inl h) \<and>
            get_holder_by_name self column_name (Some d) = Inr (Inl h))"
  using assms by (simp add: get_holder_by_name_def)

subsection \<open>Unknown variables and cycles\<close>

text \<open>
  C4: a call of \<open>compute\<close> for a name that is not in the in-flight set and that no
  entity owns fails with the \<open>KeyError\<close> of the lookup, the \<open>UnknownVariableError\<close>
  of the spec. The simulation is left as it was, so every later request is answered as
  if the failed one had not been made.
\<close>

theorem compute_unknown_variable:
  assumes "entity_by_column_name self = Some owners" and "map_of owners column_name = None"
    and "\<forall>r. requested = Some r \<longrightarrow> column_name |\<notin>| r"
  shows "compute ec self column_name requested = (Inl (KeyError column_name), self) \<and>
         compute ec (snd (compute ec self column_name requested)) other_name other_requested =
           compute ec self other_name other_requested"
  using assms by (simp add: compute_unknown)

text \<open>
  C1: a call of \<open>compute\<close> for a name that is in the in-flight set fails at once with
  the failed assertion, the \<open>CyclicDependencyError\<close> of the spec, whose message names
  every member of the in-flight set. It does so whatever the method of the entity would
  do, and leaves the simulation unchanged: no dependency is computed before. For the
  chain in which \<open>A\<close> reads \<open>B\<close>, \<open>B\<close> reads \<open>C\<close> and \<open>C\<close> reads \<open>A\<close>, a request
  for any of the three fails with this error, naming all three, at every recursion limit
  that lets the evaluation go round the cycle once.
\<close>

theorem compute_detects_cycle:
  "(column_name |\<in>| requested \<longrightarrow>
      compute ec self column_name (Some requested) =
        (Inl (AssertionError (infinite_loop_message requested)), self) \<and>
      (\<exists>names. set names = fset requested \<and>
         infinite_loop_message requested =
           ''Infinite loop. Missing values for columns: '' @ join '', '' names)) \<and>
   fst (compute (Entity_compute (Suc (Suc (Suc depth)))) chain_sim ''A'' None) =
     Inl (AssertionError ''Infinite loop. Missing values for columns: A, B, C'') \<and>
   fst (compute (Entity_compute (Suc (Suc (Suc depth)))) chain_sim ''B'' None) =
     Inl (AssertionError ''Infinite loop. Missing values for columns: A, B, C'') \<and>
   fst (compute (Entity_compute (Suc (Suc (Suc depth)))) chain_sim ''C'' None) =
     Inl (AssertionError ''Infinite loop. Missing values for columns: A, B, C'')"
  using message_names [of requested]
  by (auto simp: compute_in_flight chain_A chain_B chain_C)


theorem compute_detects_cycle_witness:
  "compute (Entity_compute 0) chain_sim ''A'' (Some {|''A'', ''B''|}) =
     (Inl (AssertionError ''Infinite loop. Missing values for columns: A, B''), chain_sim)"
proof -
  have m: "infinite_loop_message {|''A'', ''B''|} =
           ''Infinite loop. Missing values for columns: A, B''"
    by code_simp
  have h: "''A'' |\<in>| {|''A'', ''B''|}" by simp
  from compute_detects_cycle [where column_name = "''A''" and requested = "{|''A'', ''B''|}"
         and ec = "Entity_compute 0" and self = chain_sim and depth = 0]
  show ?thesis using h m by simp
qed

theorem compute_unknown_variable_witness:
  "compute (Entity_compute 3) chain_sim ''D'' None = (Inl (KeyError ''D''), chain_sim)"
proof -
  have a: "map_of [(''A'', ''ind''), (''B'', ''ind''), (''C'', ''ind'')] ''D'' = None" by simp
  have b: "\<forall>r. (None :: string fset option) = Some r \<longrightarrow> ''D'' |\<notin>| r" by simp
  from compute_unknown_variable [OF chain_owners a b, of "Entity_compute 3"]
  show ?thesis by simp
qed

theorem set_entities_variable_owner_witness:
  "\<exists>owners. entity_by_column_name chain_sim = Some owners \<and>
     (\<exists>!key. map_of owners ''A'' = Some key) \<and>
     map_of owners ''A'' = Some ''ind'' \<and>
     entity_by_column_name (snd (compute (Entity_compute 5) chain_sim ''A'' None)) = Some owners"
proof -
  have reg: "(''ind'', chain_entity) \<in> set [(''ind'', chain_entity)] \<and>
             ''A'' \<in> fst ` set (column_by_name chain_entity)"
    by (simp add: chain_entity_def)
  from set_entities_variable_owner [of "new_simulation () ()" "[(''ind'', chain_entity)]" 5 "''A''" None]
  obtain owners where o: "entity_by_column_name chain_sim = Some owners"
    and u: "\<forall>key e c. (key, e) \<in> set [(''ind'', chain_entity)] \<and>
              c \<in> fst ` set (column_by_name e) \<longrightarrow>
              (\<exists>!key'. map_of owners c = Some key') \<and>
              (\<exists>key' e'. map_of owners c = Some key' \<and> (key', e') \<in> set [(''ind'', chain_entity)] \<and>
                 c \<in> fst ` set (column_by_name e'))"
    and k: "entity_by_column_name (snd (compute (Entity_compute 5) chain_sim ''A'' None)) = Some owners"
    unfolding chain_sim_def by blast
  from u reg have one: "\<exists>!key. map_of owners ''A'' = Some key" by blast
  from o chain_owners have "owners = [(''A'', ''ind''), (''B'', ''ind''), (''C'', ''ind'')]" by simp
  then have "map_of owners ''A'' = Some ''ind''" by simp
  with o one k show ?thesis by blast
qed

lemma tax_owners:
  "entity_by_column_name (tax_sim rate) = Some [(''salary'', ''individual''), (''tax'', ''individual'')]"
  by (simp add: tax_sim_def set_entities_def owner_pairs_def individual_def)

lemma tax_entities: "entities (tax_sim rate) = Some [(''individual'', individual)]"
  by (simp add: tax_sim_def set_entities_def)

theorem get_holder_by_name_default_witness:
  "get_holder_by_name (tax_sim (1 / 10)) ''tax'' (None :: nat option) = Inl (KeyError ''tax'') \<and>
   get_holder_by_name (tax_sim (1 / 10)) ''tax'' (Some (0 :: nat)) = Inr (Inr 0) \<and>
   get_holder_by_name (tax_sim (1 / 10)) ''salary'' (None :: nat option) =
     Inr (Inl \<lparr>h_state = INPUT, h_values = [PFloat 1000, PFloat 0, PFloat 500]\<rparr>) \<and>
   get_holder_by_name (tax_sim (1 / 10)) ''salary'' (Some (0 :: nat)) =
     Inr (Inl \<lparr>h_state = INPUT, h_values = [PFloat 1000, PFloat 0, PFloat 500]\<rparr>)"
proof -
  have t: "map_of [(''salary'', ''individual''), (''tax'', ''individual'')] ''tax'' = Some ''individual''"
    by simp
  have s: "map_of [(''salary'', ''individual''), (''tax'', ''individual'')] ''salary'' = Some ''individual''"
    by simp
  have e: "map_of [(''individual'', individual)] ''individual'' = Some individual" by simp
  have ht: "map_of (holder_by_name individual) ''tax'' = None"
    by (simp add: individual_def)
  have hs: "map_of (holder_by_name individual) ''salary'' =
            Some \<lparr>h_state = INPUT, h_values = [PFloat 1000, PFloat 0, PFloat 500]\<rparr>"
    by (simp add: individual_def)
  from get_holder_by_name_default [OF tax_owners t tax_entities e,
         where d = "0 :: nat" and h = undefined]
       get_holder_by_name_default [OF tax_owners s tax_entities e,
         where d = "0 :: nat"
           and h = "\<lparr>h_state = INPUT, h_values = [PFloat 1000, PFloat 0, PFloat 500]\<rparr>"]
  show ?thesis using ht hs by simp
qed


subsection \<open>The recursion limit\<close>

text \<open>
  Each nested call adds an owned name to the in-flight set, and a name of the set is
  refused before any call, so the evaluation nests no deeper than there are owned names:
  with a recursion limit of at least that number, \<open>compute\<close> never fails with the
  error of the limit.
\<close>

lemma compute_None: "compute ec s c None = compute ec s c (Some {||})"
  by (simp add: compute_def)

lemma finite_owned: "finite (owned s)"
  by (simp add: owned_def split: option.splits)

lemma owned_cong: "entity_by_column_name s' = entity_by_column_name s \<Longrightarrow> owned s' = owned s"
  by (simp add: owned_def)

lemma compute_inputs_no_limit:
  assumes pres: "\<And>s c r. entity_by_column_name (snd (cmp s c r)) = entity_by_column_name s"
    and ok: "\<And>s' n. entity_by_column_name s' = entity_by_column_name s0 \<Longrightarrow>
               fst (cmp s' n (Some req)) \<noteq> Inl (RuntimeError m)"
    and same: "entity_by_column_name s = entity_by_column_name s0"
  shows "fst (compute_inputs cmp names req s) \<noteq> Inl (RuntimeError m)"
  using same
proof (induction names arbitrary: s)
  case Nil
  show ?case by simp
next
  case (Cons n names)
  obtain r s' where first: "cmp s n (Some req) = (r, s')" by (cases "cmp s n (Some req)")
  from ok [OF Cons.prems, of n] first have r: "r \<noteq> Inl (RuntimeError m)" by simp
  from pres [of s n "Some req"] first Cons.prems
  have s': "entity_by_column_name s' = entity_by_column_name s0" by simp
  show ?case
  proof (cases r)
    case (Inl e)
    with first r show ?thesis by simp
  next
    case (Inr a)
    obtain r2 s2 where rest: "compute_inputs cmp names req s' = (r2, s2)"
      by (cases "compute_inputs cmp names req s'")
    from Cons.IH [OF s'] rest have "r2 \<noteq> Inl (RuntimeError m)" by simp
    with first Inr rest show ?thesis by (cases r2) auto
  qed
qed

lemma compute_no_limit_step:
  assumes ec: "\<And>key. c \<in> owned s \<Longrightarrow> c |\<notin>| req \<Longrightarrow>
                 fst (ec key c req s) \<noteq> Inl (RuntimeError m)"
  shows "fst (compute ec s c (Some req)) \<noteq> Inl (RuntimeError m)"
proof (cases "c |\<in>| req")
  case True
  then show ?thesis by (simp add: compute_def)
next
  case False
  show ?thesis
  proof (cases "entity_by_column_name s")
    case None
    with False show ?thesis by (simp add: compute_def)
  next
    case (Some owners)
    show ?thesis
    proof (cases "map_of owners c")
      case None
      with Some False show ?thesis by (simp add: compute_def)
    next
      case key: (Some key)
      then have "c \<in> fst ` set owners" by (force dest: map_of_SomeD)
      with Some have "c \<in> owned s" by (simp add: owned_def)
      from ec [OF this False, of key] Some key False show ?thesis
        by (simp add: compute_def)
    qed
  qed
qed

lemma Entity_compute_within_depth:
  "c \<in> owned s \<Longrightarrow> c |\<notin>| req \<Longrightarrow> card (owned s - fset req) \<le> depth \<Longrightarrow>
   fst (Entity_compute depth key c req (s :: 'l simulation)) \<noteq> Inl (RuntimeError m)"
proof (induction depth arbitrary: key c req s)
  case 0
  from "0.prems"(1,2) have "c \<in> owned s - fset req" by simp
  moreover have "finite (owned s - fset req)" by (simp add: finite_owned)
  ultimately have "card (owned s - fset req) \<noteq> 0" by auto
  with "0.prems"(3) show ?case by simp
next
  case (Suc depth)
  have less: "card (owned s - fset (finsert c req)) \<le> depth"
  proof -
    have "owned s - fset (finsert c req) = (owned s - fset req) - {c}" by auto
    moreover have "c \<in> owned s - fset req" using Suc.prems(1,2) by simp
    moreover have "finite (owned s - fset req)" by (simp add: finite_owned)
    ultimately have "card (owned s - fset (finsert c req)) = card (owned s - fset req) - 1"
      by (simp only: card_Diff_singleton)
    with Suc.prems(3) show ?thesis by linarith
  qed
  have cmp: "\<And>(s' :: 'l simulation) n.
      entity_by_column_name s' = entity_by_column_name s \<Longrightarrow>
      fst (compute (Entity_compute depth) s' n (Some (finsert c req))) \<noteq> Inl (RuntimeError m)"
  proof -
    fix s' :: "'l simulation" and n
    assume same: "entity_by_column_name s' = entity_by_column_name s"
    from same have "owned s' = owned s" by (rule owned_cong)
    with less have le: "card (owned s' - fset (finsert c req)) \<le> depth"
      by (simp only:)
    have "\<And>key'. n \<in> owned s' \<Longrightarrow> n |\<notin>| finsert c req \<Longrightarrow>
            fst (Entity_compute depth key' n (finsert c req) s') \<noteq> Inl (RuntimeError m)"
      using le by (rule Suc.IH [rotated 2])
    then show "fst (compute (Entity_compute depth) s' n (Some (finsert c req))) \<noteq>
                 Inl (RuntimeError m)"
      by (rule compute_no_limit_step [where ec = "Entity_compute depth"])
  qed
  have pres: "\<And>(s' :: 'l simulation) n r.
      entity_by_column_name (snd (compute (Entity_compute depth) s' n r)) = entity_by_column_name s'"
    by (rule compute_keeps_owners) (rule Entity_compute_keeps_owners)
  have inputs: "\<And>names h.
      fst (compute_inputs (compute (Entity_compute depth)) names (finsert c req)
             (put_holder s key c h)) \<noteq> Inl (RuntimeError m)"
  proof -
    fix names h
    have same: "entity_by_column_name (put_holder s key c h) = entity_by_column_name s" by simp
    show "fst (compute_inputs (compute (Entity_compute depth)) names (finsert c req)
             (put_holder s key c h)) \<noteq> Inl (RuntimeError m)"
      using pres cmp same
      by (rule compute_inputs_no_limit
            [where cmp = "compute (Entity_compute depth)" and ?s0.0 = s
               and req = "finsert c req" and m = m])
  qed
  show ?case
  proof (cases "map_of (case entities s of None \<Rightarrow> [] | Some ents \<Rightarrow> ents) key")
    case None
    then show ?thesis by simp
  next
    case (Some entity)
    show ?thesis
    proof (cases "map_of (column_by_name entity) c")
      case None
      with Some show ?thesis by simp
    next
      case col: (Some column)
      show ?thesis
      proof (cases "map_of (formula_by_name entity) c")
        case None
        with Some col show ?thesis by (simp add: Let_def)
      next
        case f: (Some f)
        define h where "h = (case map_of (holder_by_name entity) c of
                           None \<Rightarrow> \<lparr>h_state = EMPTY, h_values = []\<rparr> | Some h \<Rightarrow> h)"
        obtain r2 s2 where run: "compute_inputs (compute (Entity_compute depth))
             (required_inputs f) (finsert c req) (put_holder s key c h) = (r2, s2)"
          by (cases "compute_inputs (compute (Entity_compute depth))
             (required_inputs f) (finsert c req) (put_holder s key c h)")
        from inputs [of "required_inputs f" h] run have r2: "r2 \<noteq> Inl (RuntimeError m)" by simp
        from Some col f run r2 show ?thesis
          by (cases r2) (simp_all add: Let_def h_def [symmetric])
      qed
    qed
  qed
qed

lemma compute_within_depth:
  assumes "card (owned s) \<le> depth"
  shows "fst (compute (Entity_compute depth) s c None) \<noteq> Inl (RuntimeError m)"
proof -
  have "fst (compute (Entity_compute depth) s c (Some {||})) \<noteq> Inl (RuntimeError m)"
  proof (rule compute_no_limit_step)
    fix key
    assume "c \<in> owned s" "c |\<notin>| {||}"
    moreover from assms have "card (owned s - fset {||}) \<le> depth" by simp
    ultimately show "fst (Entity_compute depth key c {||} s) \<noteq> Inl (RuntimeError m)"
      by (rule Entity_compute_within_depth)
  qed
  then show ?thesis by (simp add: compute_None)
qed


section \<open>Properties of the reform mode\<close>

subsection \<open>The effect of the methods on the heap\<close>


lemma update_table_first:
  "output_tables h = ots @ [ta, tb] \<Longrightarrow>
   update_table (length ots) f h = h\<lparr>output_tables := ots @ [f ta, tb]\<rparr>"
  by (simp add: update_table_def)

lemma update_table_second:
  "output_tables h = ots @ [ta, tb] \<Longrightarrow>
   update_table (Suc (length ots)) f h = h\<lparr>output_tables := ots @ [ta, f tb]\<rparr>"
  by (simp add: update_table_def list_update_append nth_append)

lemma update_table_last:
  "output_tables h = ots @ [ta] \<Longrightarrow>
   update_table (length ots) f h = h\<lparr>output_tables := ots @ [f ta]\<rparr>"
  by (simp add: update_table_def)

lemma preproc_reform:
  assumes "reforme self"
  shows "preproc self h =
     (self\<lparr>output_table := Some (length (output_tables h)),
            output_table_default := Some (Suc (length (output_tables h)))\<rparr>,
      h\<lparr>output_tables := output_tables h @
          [prepared_table self (P self) [], prepared_table self (P_default self) []]\<rparr>)"
  using assms
  by (simp add: preproc_def TaxBenefitSystem_def set_inputs_def disable_def prepared_table_def
        update_table_def list_update_append nth_append Let_def)

lemma setattr_both:
  "foldl (\<lambda>h (key, val). setattr (Suc (length ots)) key val (setattr (length ots) key val h))
     (h\<lparr>output_tables := ots @ [ta, tb]\<rparr>) kwargs =
   h\<lparr>output_tables := ots @
       [ta\<lparr>tbs_attributes := foldl (\<lambda>d (key, val). AList.update key val d) (tbs_attributes ta) kwargs\<rparr>,
        tb\<lparr>tbs_attributes := foldl (\<lambda>d (key, val). AList.update key val d) (tbs_attributes tb) kwargs\<rparr>]\<rparr>"
proof (induction kwargs arbitrary: ta tb)
  case Nil
  show ?case by simp
next
  case (Cons kv kwargs)
  obtain k v where kv: "kv = (k, v)" by (cases kv)
  have step: "setattr (Suc (length ots)) k v (setattr (length ots) k v (h\<lparr>output_tables := ots @ [ta, tb]\<rparr>)) =
        h\<lparr>output_tables := ots @
           [ta\<lparr>tbs_attributes := AList.update k v (tbs_attributes ta)\<rparr>,
            tb\<lparr>tbs_attributes := AList.update k v (tbs_attributes tb)\<rparr>]\<rparr>"
    by (simp add: setattr_def update_table_def list_update_append nth_append)
  show ?case
    by (simp add: kv step Cons.IH)
qed

lemma calculate_first:
  assumes "tbs_inputs ta = Some i"
  shows "calculate depth (length ots) (h\<lparr>output_tables := ots @ [ta, tb]\<rparr>) =
     (fst (calculate_table depth ta (input_tables h ! i)),
      h\<lparr>output_tables := ots @ [snd (calculate_table depth ta (input_tables h ! i)), tb]\<rparr>)"
  using assms
  by (simp add: calculate_def update_table_def split: prod.splits)

lemma calculate_second:
  assumes "tbs_inputs tb = Some i"
  shows "calculate depth (Suc (length ots)) (h\<lparr>output_tables := ots @ [ta, tb]\<rparr>) =
     (fst (calculate_table depth tb (input_tables h ! i)),
      h\<lparr>output_tables := ots @ [ta, snd (calculate_table depth tb (input_tables h ! i))]\<rparr>)"
  using assms
  by (simp add: calculate_def update_table_def list_update_append nth_append split: prod.splits)

lemma reset_disable_second:
  "disable (Suc (length ots)) (disabled_prestations self)
     (reset (Suc (length ots))
        (h\<lparr>output_tables := ots @ [ta, prepared_table self param kwargs]\<rparr>)) =
   h\<lparr>output_tables := ots @ [ta, prepared_table self param kwargs]\<rparr>"
  by (simp add: disable_def reset_def update_table_def list_update_append nth_append
        prepared_table_def)

lemma prepared_attributes:
  "(prepared_table self param [])\<lparr>tbs_attributes :=
      foldl (\<lambda>d (key, val). AList.update key val d)
        (tbs_attributes (prepared_table self param [])) kwargs\<rparr> =
   prepared_table self param kwargs"
  by (simp add: prepared_table_def)

lemma prepared_inputs: "tbs_inputs (prepared_table self param kwargs) = Some (input_table self)"
  by (simp add: prepared_table_def)



subsection \<open>\<open>_compute\<close> in reform mode\<close>

text \<open>
  In reform mode \<open>_compute\<close> allocates two new tables, at consecutive addresses, and
  what it makes of each is the calculation of that table prepared on its own.
\<close>

lemma private_compute_reform:
  assumes "reforme self"
  shows "private_compute depth self kwargs h =
     (let a = length (output_tables h);
          inputs = input_tables h ! input_table self;
          ca = calculate_table depth (prepared_table self (P self) kwargs) inputs;
          cb = calculate_table depth (prepared_table self (P_default self) kwargs) inputs;
          self1 = self\<lparr>output_table := Some a, output_table_default := Some (Suc a)\<rparr>
      in case fst ca of
           Inl e \<Rightarrow>
             (Some e, self1,
              h\<lparr>output_tables := output_tables h @
                  [snd ca, prepared_table self (P_default self) kwargs]\<rparr>)
         | Inr d \<Rightarrow>
             (case fst cb of
                Inl e \<Rightarrow> (Some e, self1, h\<lparr>output_tables := output_tables h @ [snd ca, snd cb]\<rparr>)
              | Inr dd \<Rightarrow>
                  (None, self1\<lparr>data := Some d, data_default := Some dd\<rparr>,
                   h\<lparr>output_tables := output_tables h @ [snd ca, snd cb]\<rparr>)))"
proof -
  let ?a = "length (output_tables h)"
  let ?inputs = "input_tables h ! input_table self"
  let ?ta = "prepared_table self (P self) kwargs"
  let ?tb = "prepared_table self (P_default self) kwargs"
  let ?self1 = "self\<lparr>output_table := Some ?a, output_table_default := Some (Suc ?a)\<rparr>"
  have attrs: "foldl (\<lambda>h (key, val). setattr (Suc ?a) key val (setattr ?a key val h))
      (h\<lparr>output_tables := output_tables h @
          [prepared_table self (P self) [], prepared_table self (P_default self) []]\<rparr>) kwargs =
      h\<lparr>output_tables := output_tables h @ [?ta, ?tb]\<rparr>"
    by (simp only: setattr_both prepared_attributes)
  have first: "calculate depth ?a (h\<lparr>output_tables := output_tables h @ [?ta, ?tb]\<rparr>) =
      (fst (calculate_table depth ?ta ?inputs),
       h\<lparr>output_tables := output_tables h @ [snd (calculate_table depth ?ta ?inputs), ?tb]\<rparr>)"
    by (rule calculate_first) (rule prepared_inputs)
  have again: "disable (Suc ?a) (disabled_prestations self)
      (reset (Suc ?a)
        (h\<lparr>output_tables := output_tables h @ [snd (calculate_table depth ?ta ?inputs), ?tb]\<rparr>)) =
      h\<lparr>output_tables := output_tables h @ [snd (calculate_table depth ?ta ?inputs), ?tb]\<rparr>"
    by (rule reset_disable_second)
  have second: "calculate depth (Suc ?a)
      (h\<lparr>output_tables := output_tables h @ [snd (calculate_table depth ?ta ?inputs), ?tb]\<rparr>) =
      (fst (calculate_table depth ?tb ?inputs),
       h\<lparr>output_tables := output_tables h @
          [snd (calculate_table depth ?ta ?inputs), snd (calculate_table depth ?tb ?inputs)]\<rparr>)"
    by (rule calculate_second) (rule prepared_inputs)
  show ?thesis
    using assms
    by (simp add: private_compute_def preproc_reform attrs first again second Let_def
          split: sum.splits)
qed



text \<open>
  C2: in reform mode \<open>_compute\<close> evaluates two output tables that are two objects
  with the same input table, one with the legislation and one with the default
  legislation. The results and the computed arrays of each table are exactly those of a
  calculation by that table prepared on its own with its own legislation, so no array
  computed under one legislation answers a request under the other. In the scenario of
  the spec, the rates 0.1 and 0.2 give the arrays 100, 0, 50 and 200, 0, 100, each kept
  in its own table.
\<close>

theorem reform_tables_independent:
  assumes "reforme self"
  shows "\<exists>e self' h' a b.
     private_compute depth self kwargs h = (e, self', h') \<and>
     output_table self' = Some a \<and> output_table_default self' = Some b \<and> a \<noteq> b \<and>
     tbs_inputs (output_tables h' ! a) = Some (input_table self) \<and>
     tbs_inputs (output_tables h' ! b) = Some (input_table self) \<and>
     tbs_param (output_tables h' ! a) = P self \<and>
     tbs_param (output_tables h' ! b) = P_default self \<and>
     (e = None \<longrightarrow>
        (\<exists>d dd. data self' = Some d \<and> data_default self' = Some dd \<and>
           calculate_table depth (prepared_table self (P self) kwargs)
             (input_tables h ! input_table self) = (Inr d, output_tables h' ! a) \<and>
           calculate_table depth (prepared_table self (P_default self) kwargs)
             (input_tables h ! input_table self) = (Inr dd, output_tables h' ! b)))"
proof -
  let ?a = "length (output_tables h)"
  let ?inputs = "input_tables h ! input_table self"
  let ?ca = "calculate_table depth (prepared_table self (P self) kwargs) ?inputs"
  let ?cb = "calculate_table depth (prepared_table self (P_default self) kwargs) ?inputs"
  have pa: "tbs_inputs (snd ?ca) = Some (input_table self) \<and> tbs_param (snd ?ca) = P self"
    by (simp add: calculate_table_def prepared_table_def split: prod.splits)
  have pb: "tbs_inputs (snd ?cb) = Some (input_table self) \<and> tbs_param (snd ?cb) = P_default self"
    by (simp add: calculate_table_def prepared_table_def split: prod.splits)
  have p0: "tbs_inputs (prepared_table self (P_default self) kwargs) = Some (input_table self) \<and>
            tbs_param (prepared_table self (P_default self) kwargs) = P_default self"
    by (simp add: prepared_table_def)
  show ?thesis
  proof (cases "fst ?ca")
    case (Inl e)
    then show ?thesis
      using pa p0
      by (simp add: private_compute_reform [OF assms] Let_def nth_append)
  next
    case da: (Inr d)
    show ?thesis
    proof (cases "fst ?cb")
      case (Inl e)
      with da show ?thesis
        using pa pb
        by (simp add: private_compute_reform [OF assms] Let_def nth_append)
    next
      case (Inr dd)
      with da have "?ca = (Inr d, snd ?ca)" "?cb = (Inr dd, snd ?cb)"
        by (simp_all add: prod_eq_iff)
      with da Inr show ?thesis
        using pa pb
        by (simp add: private_compute_reform [OF assms] Let_def nth_append)
    qed
  qed
qed

lemma reform_run:
  "fst (private_compute 5 reform_sim [] reform_heap) = None"
  by code_simp

lemma reform_actual:
  "fst (calculate_table 5 (prepared_table reform_sim (1 / 10) []) salary_table) =
     Inr [(''tax'', [PFloat 100, PFloat 0, PFloat 50])] \<and>
   tbs_computed (snd (calculate_table 5 (prepared_table reform_sim (1 / 10) []) salary_table)) =
     [(''tax'', [PFloat 100, PFloat 0, PFloat 50])]"
  by code_simp

lemma reform_baseline:
  "fst (calculate_table 5 (prepared_table reform_sim (2 / 10) []) salary_table) =
     Inr [(''tax'', [PFloat 200, PFloat 0, PFloat 100])] \<and>
   tbs_computed (snd (calculate_table 5 (prepared_table reform_sim (2 / 10) []) salary_table)) =
     [(''tax'', [PFloat 200, PFloat 0, PFloat 100])]"
  by code_simp

theorem reform_tables_independent_witness:
  "\<exists>self' h' a b.
     private_compute 5 reform_sim [] reform_heap = (None, self', h') \<and>
     output_table self' = Some a \<and> output_table_default self' = Some b \<and> a \<noteq> b \<and>
     tbs_inputs (output_tables h' ! a) = Some 0 \<and>
     tbs_inputs (output_tables h' ! b) = Some 0 \<and>
     tbs_param (output_tables h' ! a) = 1 / 10 \<and>
     tbs_param (output_tables h' ! b) = 2 / 10 \<and>
     data self' = Some [(''tax'', [PFloat 100, PFloat 0, PFloat 50])] \<and>
     data_default self' = Some [(''tax'', [PFloat 200, PFloat 0, PFloat 100])] \<and>
     tbs_computed (output_tables h' ! a) = [(''tax'', [PFloat 100, PFloat 0, PFloat 50])] \<and>
     tbs_computed (output_tables h' ! b) = [(''tax'', [PFloat 200, PFloat 0, PFloat 100])]"
proof -
  have r: "reforme reform_sim" by (simp add: reform_sim_def)
  have i: "input_table reform_sim = 0" "P reform_sim = 1 / 10" "P_default reform_sim = 2 / 10"
    by (simp_all add: reform_sim_def)
  have t: "input_tables reform_heap ! 0 = salary_table" by (simp add: reform_heap_def)
  from reform_tables_independent [OF r, of 5 "[]" reform_heap]
  obtain e self' h' a b where
    run: "private_compute 5 reform_sim [] reform_heap = (e, self', h')" and
    tabs: "output_table self' = Some a" "output_table_default self' = Some b" "a \<noteq> b"
      "tbs_inputs (output_tables h' ! a) = Some 0" "tbs_inputs (output_tables h' ! b) = Some 0"
      "tbs_param (output_tables h' ! a) = 1 / 10" "tbs_param (output_tables h' ! b) = 2 / 10" and
    ok: "e = None \<longrightarrow>
        (\<exists>d dd. data self' = Some d \<and> data_default self' = Some dd \<and>
           calculate_table 5 (prepared_table reform_sim (1 / 10) []) salary_table =
             (Inr d, output_tables h' ! a) \<and>
           calculate_table 5 (prepared_table reform_sim (2 / 10) []) salary_table =
             (Inr dd, output_tables h' ! b))"
    unfolding i t by blast
  from run reform_run have e: "e = None" by simp
  with ok obtain d dd where
    d: "data self' = Some d" "data_default self' = Some dd"
      "calculate_table 5 (prepared_table reform_sim (1 / 10) []) salary_table =
         (Inr d, output_tables h' ! a)"
      "calculate_table 5 (prepared_table reform_sim (2 / 10) []) salary_table =
         (Inr dd, output_tables h' ! b)"
    by blast
  from d(3) reform_actual have da: "d = [(''tax'', [PFloat 100, PFloat 0, PFloat 50])]"
    "tbs_computed (output_tables h' ! a) = [(''tax'', [PFloat 100, PFloat 0, PFloat 50])]"
    by simp_all
  from d(4) reform_baseline have db: "dd = [(''tax'', [PFloat 200, PFloat 0, PFloat 100])]"
    "tbs_computed (output_tables h' ! b) = [(''tax'', [PFloat 200, PFloat 0, PFloat 100])]"
    by simp_all
  from run e tabs d(1,2) da db show ?thesis by blast
qed


text \<open>Outside reform mode there is one table, and the default results are the results.\<close>

lemma preproc_no_reform:
  assumes "\<not> reforme self"
  shows "preproc self h =
     (self\<lparr>output_table := Some (length (output_tables h)),
            output_table_default := Some (length (output_tables h))\<rparr>,
      h\<lparr>output_tables := output_tables h @ [prepared_table self (P self) []]\<rparr>)"
  using assms
  by (simp add: preproc_def TaxBenefitSystem_def set_inputs_def disable_def prepared_table_def
        update_table_def Let_def)


subsection \<open>The recursion limit of a calculation\<close>

text \<open>
  A table calculates without reaching the recursion limit when the limit is at least
  the number of its input columns and prestations.
\<close>

lemma compute_all_keeps_owners:
  "entity_by_column_name (snd (compute_all depth names (s :: 'l simulation))) =
   entity_by_column_name s"
proof (induction names arbitrary: s)
  case Nil
  show ?case by simp
next
  case (Cons n names)
  obtain r s' where first: "compute (Entity_compute depth) s n None = (r, s')"
    by (cases "compute (Entity_compute depth) s n None")
  have "entity_by_column_name (snd (compute (Entity_compute depth) s n None)) =
        entity_by_column_name s"
    by (rule compute_keeps_owners) (rule Entity_compute_keeps_owners)
  with first have s': "entity_by_column_name s' = entity_by_column_name s" by simp
  show ?case
  proof (cases r)
    case (Inl e)
    with first s' show ?thesis by simp
  next
    case (Inr a)
    obtain r2 s2 where rest: "compute_all depth names s' = (r2, s2)"
      by (cases "compute_all depth names s'")
    from Cons.IH [of s'] rest s' have "entity_by_column_name s2 = entity_by_column_name s" by simp
    with first Inr rest show ?thesis by (cases r2) simp_all
  qed
qed

lemma compute_all_within_depth:
  assumes "card (owned (s :: 'l simulation)) \<le> depth"
  shows "fst (compute_all depth names s) \<noteq> Inl (RuntimeError m)"
  using assms
proof (induction names arbitrary: s)
  case Nil
  show ?case by simp
next
  case (Cons n names)
  obtain r s' where first: "compute (Entity_compute depth) s n None = (r, s')"
    by (cases "compute (Entity_compute depth) s n None")
  from compute_within_depth [OF Cons.prems, of n m] first
  have r: "r \<noteq> Inl (RuntimeError m)" by simp
  have "entity_by_column_name (snd (compute (Entity_compute depth) s n None)) =
        entity_by_column_name s"
    by (rule compute_keeps_owners) (rule Entity_compute_keeps_owners)
  with first have "entity_by_column_name s' = entity_by_column_name s" by simp
  then have "owned s' = owned s" by (rule owned_cong)
  with Cons.prems have le: "card (owned s') \<le> depth" by (simp only:)
  show ?case
  proof (cases r)
    case (Inl e)
    with first r show ?thesis by simp
  next
    case (Inr a)
    obtain r2 s2 where rest: "compute_all depth names s' = (r2, s2)"
      by (cases "compute_all depth names s'")
    from Cons.IH [OF le] rest have "r2 \<noteq> Inl (RuntimeError m)" by simp
    with first Inr rest show ?thesis by (cases r2) auto
  qed
qed

lemma calculate_table_within_depth:
  assumes "length (dt_column_by_name inputs) + length (tbs_prestation_by_name t) \<le> depth"
  shows "fst (calculate_table depth t inputs) \<noteq> Inl (RuntimeError m)"
proof -
  have "owned (table_simulation t inputs) \<subseteq>
        fst ` set (dt_column_by_name inputs) \<union> fst ` set (tbs_prestation_by_name t)"
  proof
    fix c
    assume "c \<in> owned (table_simulation t inputs)"
    then obtain o' key where o: "entity_by_column_name (table_simulation t inputs) = Some o'"
      and k: "map_of o' c = Some key"
      by (auto simp: owned_def split: option.splits dest: weak_map_of_SomeI)
    from owner_is_registered [OF o [unfolded table_simulation_def] k]
    have "c \<in> fst ` set (column_by_name (table_entity t inputs))" by auto
    then show "c \<in> fst ` set (dt_column_by_name inputs) \<union> fst ` set (tbs_prestation_by_name t)"
      by (force simp: table_entity_def)
  qed
  then have "card (owned (table_simulation t inputs)) \<le>
             card (fst ` set (dt_column_by_name inputs) \<union> fst ` set (tbs_prestation_by_name t))"
    by (intro card_mono) simp_all
  also have "\<dots> \<le> card (fst ` set (dt_column_by_name inputs)) +
                  card (fst ` set (tbs_prestation_by_name t))"
    by (rule card_Un_le)
  also have "\<dots> \<le> length (dt_column_by_name inputs) + length (tbs_prestation_by_name t)"
    by (intro add_mono) (metis card_image_le card_length le_trans List.finite_set)+
  finally have "card (owned (table_simulation t inputs)) \<le> depth" using assms by simp
  from compute_all_within_depth [OF this, of "map fst (tbs_prestation_by_name t)" m]
  show ?thesis by (auto simp: calculate_table_def split: prod.splits)
qed


end
